theory Spec2Isabelle
  imports Main "HOL-Library.Word"
begin

section \<open>Configuration (config.h)\<close>

text \<open>
  \<open>unsigned long\<close> is 32 bits wide on the ESP32: every timestamp and every elapsed-time
  difference of the firmware is a \<open>32 word\<close>, so that subtraction wraps around and the
  comparisons are unsigned, as in the C++ source.
\<close>

type_synonym ms = "32 word"

definition TRAPDOOR_OPEN_TIME :: ms where "TRAPDOOR_OPEN_TIME = 2000"
definition SERVO_MOVE_DELAY :: ms where "SERVO_MOVE_DELAY = 500"
definition FLIPPER_PHOTO_DELAY :: ms where "FLIPPER_PHOTO_DELAY = 300"
definition SENSOR_DEBOUNCE_TIME :: ms where "SENSOR_DEBOUNCE_TIME = 50"
definition MULTI_COIN_TIMEOUT :: ms where "MULTI_COIN_TIMEOUT = 1000"
definition CAMERA_WARMUP_TIME :: ms where "CAMERA_WARMUP_TIME = 100"
definition PROCESSING_TIMEOUT :: ms where "PROCESSING_TIMEOUT = 10000"
definition RESET_TIMEOUT :: ms where "RESET_TIMEOUT = 30000"

definition TRAPDOOR_CLOSED :: int where "TRAPDOOR_CLOSED = 0"
definition TRAPDOOR_OPEN :: int where "TRAPDOOR_OPEN = 90"
definition FLIPPER_HOME :: int where "FLIPPER_HOME = 0"
definition FLIPPER_SIDE_1 :: int where "FLIPPER_SIDE_1 = 90"
definition FLIPPER_SIDE_2 :: int where "FLIPPER_SIDE_2 = 180"

definition MULTI_COIN_THRESHOLD :: int where "MULTI_COIN_THRESHOLD = 2"

definition IMAGE_FILENAME_PREFIX :: string where "IMAGE_FILENAME_PREFIX = ''/coin_''"
definition IMAGE_FILENAME_SUFFIX :: string where "IMAGE_FILENAME_SUFFIX = ''.jpg''"

datatype CoinMachineState =
    STATE_INIT
  | STATE_WAITING_FOR_COIN
  | STATE_COIN_DETECTED
  | STATE_PROCESSING
  | STATE_PHOTOGRAPHING
  | STATE_REJECTING
  | STATE_ERROR

datatype StatusCode =
    STATUS_OK
  | STATUS_MULTIPLE_COINS
  | STATUS_COIN_DURING_PROCESSING
  | STATUS_CAMERA_ERROR
  | STATUS_STORAGE_ERROR
  | STATUS_TIMEOUT_ERROR

text \<open>\<open>struct RGBColor { uint8_t r, g, b; }\<close> and the five status colours.\<close>

type_synonym RGBColor = "8 word \<times> 8 word \<times> 8 word"

definition LED_READY :: RGBColor where "LED_READY = (0, 255, 0)"
definition LED_PROCESSING :: RGBColor where "LED_PROCESSING = (255, 255, 0)"
definition LED_BUSY :: RGBColor where "LED_BUSY = (255, 0, 0)"
definition LED_ERROR :: RGBColor where "LED_ERROR = (255, 0, 255)"
definition LED_OFF :: RGBColor where "LED_OFF = (0, 0, 0)"

section \<open>The machine: the firmware's global variables\<close>

text \<open>
  One record holds the globals of the sketch and of the hardware functions, the two
  function-local statics (\<open>lastErrorReport\<close> of \<open>handleError\<close>, \<open>imageCounter\<close> of
  \<open>generateImageFilename\<close>), the millisecond clock that \<open>millis()\<close> reads, and what the
  firmware last commanded to the actuators and indicators. \<open>errorLog\<close> collects the
  messages that \<open>handleError\<close> prints, one entry per report. The globals
  \<open>lastStateTime\<close> and \<open>photographSequenceTime\<close> are declared by the sketch and
  never read or written; they are left out. The counters are C \<open>int\<close>s that the firmware
  only ever increments from a small value between resets; they are \<open>int\<close> here.
\<close>

record machine =
  clock :: ms
  currentState :: CoinMachineState
  previousState :: CoinMachineState
  stateStartTime :: ms
  trapdoorOpenTime :: ms
  flipperMoveTime :: ms
  processingCoin :: bool
  currentPhotoStep :: int
  currentImageFilename1 :: string
  currentImageFilename2 :: string
  lastError :: StatusCode
  errorCount :: int
  lastErrorReport :: ms
  sensorTriggered :: bool
  lastSensorTrigger :: ms
  sensorTriggerCount :: int
  sensorWindowStart :: ms
  imageCounter :: int
  trapdoorAngle :: int
  flipperAngle :: int
  statusLED :: RGBColor
  cameraLights :: bool
  errorLog :: "string list"

text \<open>The values of the global initialisers, with the clock at power-up.\<close>

definition power_on :: machine where
  "power_on = \<lparr> clock = 0, currentState = STATE_INIT, previousState = STATE_INIT,
     stateStartTime = 0, trapdoorOpenTime = 0, flipperMoveTime = 0,
     processingCoin = False, currentPhotoStep = 0,
     currentImageFilename1 = '''', currentImageFilename2 = '''',
     lastError = STATUS_OK, errorCount = 0, lastErrorReport = 0,
     sensorTriggered = False, lastSensorTrigger = 0, sensorTriggerCount = 0,
     sensorWindowStart = 0, imageCounter = 0,
     trapdoorAngle = 0, flipperAngle = 0, statusLED = LED_OFF, cameraLights = False,
     errorLog = [] \<rparr>"

subsection \<open>Time\<close>

definition millis :: "machine \<Rightarrow> ms" where
  "millis s = clock s"

definition delay :: "ms \<Rightarrow> machine \<Rightarrow> machine" where
  "delay d s = s\<lparr>clock := clock s + d\<rparr>"

section \<open>Hardware functions\<close>

subsection \<open>Servos and LEDs\<close>

definition setTrapdoorPosition :: "int \<Rightarrow> machine \<Rightarrow> machine" where
  "setTrapdoorPosition angle s = s\<lparr>trapdoorAngle := angle\<rparr>"

definition setFlipperPosition :: "int \<Rightarrow> machine \<Rightarrow> machine" where
  "setFlipperPosition angle s = s\<lparr>flipperAngle := angle\<rparr>"

definition openTrapdoor :: "machine \<Rightarrow> machine" where
  "openTrapdoor s = setTrapdoorPosition TRAPDOOR_OPEN s"

definition closeTrapdoor :: "machine \<Rightarrow> machine" where
  "closeTrapdoor s = setTrapdoorPosition TRAPDOOR_CLOSED s"

definition moveFlipperHome :: "machine \<Rightarrow> machine" where
  "moveFlipperHome s = setFlipperPosition FLIPPER_HOME s"

definition moveFlipperToSide1 :: "machine \<Rightarrow> machine" where
  "moveFlipperToSide1 s = setFlipperPosition FLIPPER_SIDE_1 s"

definition moveFlipperToSide2 :: "machine \<Rightarrow> machine" where
  "moveFlipperToSide2 s = setFlipperPosition FLIPPER_SIDE_2 s"

definition setStatusLED :: "RGBColor \<Rightarrow> machine \<Rightarrow> machine" where
  "setStatusLED color s = s\<lparr>statusLED := color\<rparr>"

definition setCameraLights :: "bool \<Rightarrow> machine \<Rightarrow> machine" where
  "setCameraLights on s = s\<lparr>cameraLights := on\<rparr>"

subsection \<open>Camera\<close>

text \<open>
  \<open>captureAndSaveImage\<close>: lights on, warm-up delay, frame grab, file write, lights off.
  Whether the frame grab and the file open succeed is decided by the hardware; the
  outcome \<open>ok\<close> is an input of the model, and the file system is not part of the
  state. Both failure branches switch the lights off and return false; the warm-up delay
  has passed in every branch.
\<close>

definition captureAndSaveImage :: "bool \<Rightarrow> string \<Rightarrow> machine \<Rightarrow> bool \<times> machine" where
  "captureAndSaveImage ok filename s =
     (let s1 = setCameraLights True s;
          s2 = delay CAMERA_WARMUP_TIME s1
      in (ok, setCameraLights False s2))"

subsection \<open>Sensor (the edge detector)\<close>

text \<open>The interrupt handler; \<open>millis()\<close> is the clock at the moment of the edge.\<close>

definition sensorInterrupt :: "machine \<Rightarrow> machine" where
  "sensorInterrupt s =
     (let currentTime = millis s in
      if currentTime - lastSensorTrigger s < SENSOR_DEBOUNCE_TIME then s
      else
        let s1 = s\<lparr>lastSensorTrigger := currentTime\<rparr>;
            s2 = (if sensorTriggerCount s1 = 0
                  then s1\<lparr>sensorWindowStart := currentTime\<rparr> else s1)
        in s2\<lparr>sensorTriggerCount := sensorTriggerCount s2 + 1, sensorTriggered := True\<rparr>)"

definition isSensorTriggered :: "machine \<Rightarrow> bool" where
  "isSensorTriggered s = sensorTriggered s"

definition clearSensorTrigger :: "machine \<Rightarrow> machine" where
  "clearSensorTrigger s = s\<lparr>sensorTriggered := False\<rparr>"

definition getSensorTriggerCount :: "machine \<Rightarrow> int" where
  "getSensorTriggerCount s = sensorTriggerCount s"

definition resetSensorCount :: "machine \<Rightarrow> machine" where
  "resetSensorCount s = s\<lparr>sensorTriggerCount := 0, sensorWindowStart := 0\<rparr>"

definition isMultipleCoinDetected :: "machine \<Rightarrow> bool" where
  "isMultipleCoinDetected s =
     (let currentTime = millis s in
      if sensorTriggerCount s > 0 \<and> currentTime - sensorWindowStart s > MULTI_COIN_TIMEOUT
      then sensorTriggerCount s \<ge> MULTI_COIN_THRESHOLD
      else False)"

subsection \<open>Storage\<close>

text \<open>Decimal rendering, as Arduino's \<open>String(n)\<close> prints a number.\<close>

fun decimal :: "nat \<Rightarrow> string" where
  "decimal n =
     (if n < 10 then [char_of (48 + n)]
      else decimal (n div 10) @ [char_of (48 + n mod 10)])"

definition string_of_int :: "int \<Rightarrow> string" where
  "string_of_int i = (if i < 0 then CHR ''-'' # decimal (nat (- i)) else decimal (nat i))"

definition generateImageFilename :: "machine \<Rightarrow> string \<times> machine" where
  "generateImageFilename s =
     (let s1 = s\<lparr>imageCounter := imageCounter s + 1\<rparr>;
          filename = IMAGE_FILENAME_PREFIX @ decimal (unat (millis s1)) @ ''_''
                     @ string_of_int (imageCounter s1) @ IMAGE_FILENAME_SUFFIX
      in (filename, s1))"

subsection \<open>Reset and self test\<close>

definition systemReset :: "machine \<Rightarrow> machine" where
  "systemReset s =
     delay 1000 (resetSensorCount (setCameraLights False (setStatusLED LED_OFF
       (moveFlipperHome (closeTrapdoor s)))))"

definition performSystemTest :: "machine \<Rightarrow> machine" where
  "performSystemTest s0 =
     (let s1 = delay 500 (setStatusLED LED_READY s0);
          s2 = delay 500 (setStatusLED LED_PROCESSING s1);
          s3 = delay 500 (setStatusLED LED_BUSY s2);
          s4 = delay 500 (setStatusLED LED_ERROR s3);
          s5 = setStatusLED LED_OFF s4;
          s6 = delay 1000 (setTrapdoorPosition 45 s5);
          s7 = delay 1000 (closeTrapdoor s6);
          s8 = delay 1000 (setFlipperPosition 45 s7);
          s9 = delay 1000 (setFlipperPosition 90 s8);
          s10 = delay 1000 (moveFlipperHome s9);
          s11 = delay 1000 (setCameraLights True s10)
      in setCameraLights False s11)"

section \<open>The controller (coin_machine_firmware.ino)\<close>

definition changeState :: "CoinMachineState \<Rightarrow> machine \<Rightarrow> machine" where
  "changeState newState s =
     (if newState \<noteq> currentState s then
        let s1 = s\<lparr>previousState := currentState s, currentState := newState,
                   stateStartTime := millis s\<rparr>
        in if newState = STATE_WAITING_FOR_COIN
           then (resetSensorCount (s1\<lparr>processingCoin := False\<rparr>))\<lparr>lastError := STATUS_OK\<rparr>
           else s1
      else s)"

text \<open>The message \<open>handleError\<close> prints after \<open>ERROR STATE: \<close> for each status code.\<close>

fun errorMessage :: "StatusCode \<Rightarrow> string" where
  "errorMessage STATUS_MULTIPLE_COINS = ''Multiple coins detected''"
| "errorMessage STATUS_COIN_DURING_PROCESSING = ''Coin detected during processing''"
| "errorMessage STATUS_CAMERA_ERROR = ''Camera error''"
| "errorMessage STATUS_STORAGE_ERROR = ''Storage error''"
| "errorMessage STATUS_TIMEOUT_ERROR = ''Timeout error''"
| "errorMessage STATUS_OK = ''Unknown error''"

definition handleError :: "StatusCode \<Rightarrow> machine \<Rightarrow> machine" where
  "handleError error s0 =
     (let s1 = setStatusLED LED_ERROR s0;
          currentTime = millis s1;
          s2 = (if currentTime - lastErrorReport s1 > 5000
                then s1\<lparr>errorLog := errorLog s1 @ [errorMessage error],
                        lastErrorReport := currentTime,
                        errorCount := errorCount s1 + 1\<rparr>
                else s1)
      in if errorCount s2 \<ge> 3
         then changeState STATE_WAITING_FOR_COIN ((systemReset s2)\<lparr>errorCount := 0\<rparr>)
         else s2)"

definition handleWaitingForCoin :: "machine \<Rightarrow> machine" where
  "handleWaitingForCoin s0 =
     (let s1 = setStatusLED LED_READY s0 in
      if isSensorTriggered s1
      then clearSensorTrigger (changeState STATE_COIN_DETECTED s1)
      else s1)"

definition handleCoinDetected :: "machine \<Rightarrow> machine" where
  "handleCoinDetected s0 =
     (let s1 = setStatusLED LED_PROCESSING s0;
          timeInState = millis s1 - stateStartTime s1
      in if timeInState \<ge> MULTI_COIN_TIMEOUT then
           let s2 = (if isMultipleCoinDetected s1
                     then (changeState STATE_REJECTING s1)\<lparr>lastError := STATUS_MULTIPLE_COINS\<rparr>
                     else changeState STATE_PROCESSING s1)
           in resetSensorCount s2
         else s1)"

definition handleProcessing :: "machine \<Rightarrow> machine" where
  "handleProcessing s0 =
     (let s1 = setStatusLED LED_PROCESSING s0 in
      if isSensorTriggered s1
      then (changeState STATE_REJECTING (resetSensorCount (clearSensorTrigger s1)))
             \<lparr>lastError := STATUS_COIN_DURING_PROCESSING\<rparr>
      else
        let timeInState = millis s1 - stateStartTime s1
        in if timeInState \<ge> 500
           then (changeState STATE_PHOTOGRAPHING s1)\<lparr>currentPhotoStep := 0\<rparr>
           else s1)"

text \<open>
  The \<open>switch (currentPhotoStep)\<close> of \<open>handlePhotographing\<close>. The first component of the
  result says whether the case left the function with \<open>return\<close> (the two capture
  failures do), which skips the timeout check that follows the switch. A step outside
  0..5 matches no case.
\<close>

definition photoSwitch :: "bool \<Rightarrow> machine \<Rightarrow> bool \<times> machine" where
  "photoSwitch capture_ok s =
     (if currentPhotoStep s = 0 then
        let s1 = moveFlipperToSide1 s
        in (False, s1\<lparr>flipperMoveTime := millis s1, currentPhotoStep := 1\<rparr>)
      else if currentPhotoStep s = 1 then
        (if millis s - flipperMoveTime s \<ge> SERVO_MOVE_DELAY then
           let (filename, s1) = generateImageFilename s;
               s2 = s1\<lparr>currentImageFilename1 := filename\<rparr>;
               (ok, s3) = captureAndSaveImage capture_ok (currentImageFilename1 s2) s2
           in if ok then (False, s3\<lparr>currentPhotoStep := 2, flipperMoveTime := millis s3\<rparr>)
              else (True, handleError STATUS_CAMERA_ERROR s3)
         else (False, s))
      else if currentPhotoStep s = 2 then
        (if millis s - flipperMoveTime s \<ge> FLIPPER_PHOTO_DELAY then
           let s1 = moveFlipperToSide2 s
           in (False, s1\<lparr>flipperMoveTime := millis s1, currentPhotoStep := 3\<rparr>)
         else (False, s))
      else if currentPhotoStep s = 3 then
        (if millis s - flipperMoveTime s \<ge> SERVO_MOVE_DELAY then
           let (filename, s1) = generateImageFilename s;
               s2 = s1\<lparr>currentImageFilename2 := filename\<rparr>;
               (ok, s3) = captureAndSaveImage capture_ok (currentImageFilename2 s2) s2
           in if ok then (False, s3\<lparr>currentPhotoStep := 4, flipperMoveTime := millis s3\<rparr>)
              else (True, handleError STATUS_CAMERA_ERROR s3)
         else (False, s))
      else if currentPhotoStep s = 4 then
        (if millis s - flipperMoveTime s \<ge> FLIPPER_PHOTO_DELAY then
           let s1 = moveFlipperHome s
           in (False, s1\<lparr>flipperMoveTime := millis s1, currentPhotoStep := 5\<rparr>)
         else (False, s))
      else if currentPhotoStep s = 5 then
        (if millis s - flipperMoveTime s \<ge> SERVO_MOVE_DELAY
         then (False, changeState STATE_WAITING_FOR_COIN (s\<lparr>currentPhotoStep := 0\<rparr>))
         else (False, s))
      else (False, s))"

definition handlePhotographing :: "bool \<Rightarrow> machine \<Rightarrow> machine" where
  "handlePhotographing capture_ok s0 =
     (let s1 = setStatusLED LED_BUSY s0;
          timeInState = millis s1 - stateStartTime s1;
          (returned, s2) = photoSwitch capture_ok s1
      in if returned then s2
         else if timeInState > PROCESSING_TIMEOUT
              then handleError STATUS_TIMEOUT_ERROR s2
              else s2)"

definition handleRejecting :: "machine \<Rightarrow> machine" where
  "handleRejecting s0 =
     (let s1 = setStatusLED LED_ERROR s0;
          timeInState = millis s1 - stateStartTime s1;
          s2 = (if timeInState < 100
                then (let s = openTrapdoor s1 in s\<lparr>trapdoorOpenTime := millis s\<rparr>)
                else s1)
      in if timeInState \<ge> TRAPDOOR_OPEN_TIME then
           let s3 = closeTrapdoor s2
           in if timeInState \<ge> TRAPDOOR_OPEN_TIME + 1000
              then changeState STATE_WAITING_FOR_COIN s3
              else s3
         else s2)"

text \<open>
  The serial console. What arrives on the line is an input of the model: nothing
  (\<open>None\<close>), or one of the commands the sketch compares the line with. \<open>status\<close> and
  \<open>photos\<close> only print.
\<close>

datatype SerialCommand = CmdStatus | CmdTest | CmdReset | CmdPhotos | CmdOther

definition processSerialCommands :: "SerialCommand option \<Rightarrow> machine \<Rightarrow> machine" where
  "processSerialCommands line s =
     (case line of
        None \<Rightarrow> s
      | Some CmdStatus \<Rightarrow> s
      | Some CmdTest \<Rightarrow> performSystemTest s
      | Some CmdReset \<Rightarrow> changeState STATE_WAITING_FOR_COIN (systemReset s)
      | Some CmdPhotos \<Rightarrow> s
      | Some CmdOther \<Rightarrow> s)"

text \<open>
  One pass of \<open>loop()\<close>. The timeout branch returns before the dispatcher, the console and
  the final delay. The enum has seven values, so the \<open>default\<close> case of the dispatcher
  has no counterpart.
\<close>

definition loop :: "SerialCommand option \<Rightarrow> bool \<Rightarrow> machine \<Rightarrow> machine" where
  "loop line capture_ok s =
     (let currentTime = millis s;
          timeInState = currentTime - stateStartTime s
      in if timeInState > RESET_TIMEOUT then handleError STATUS_TIMEOUT_ERROR s
         else
           let s1 = (case currentState s of
                       STATE_INIT \<Rightarrow> changeState STATE_WAITING_FOR_COIN s
                     | STATE_WAITING_FOR_COIN \<Rightarrow> handleWaitingForCoin s
                     | STATE_COIN_DETECTED \<Rightarrow> handleCoinDetected s
                     | STATE_PROCESSING \<Rightarrow> handleProcessing s
                     | STATE_PHOTOGRAPHING \<Rightarrow> handlePhotographing capture_ok s
                     | STATE_REJECTING \<Rightarrow> handleRejecting s
                     | STATE_ERROR \<Rightarrow> handleError (lastError s) s)
           in delay 10 (processSerialCommands line s1))"

text \<open>
  \<open>setup()\<close>. Of the five initialisers only storage and camera can report failure (the
  servo, LED and sensor initialisers always return true); their outcomes are inputs.
  On failure the state variable is assigned directly, without \<open>changeState\<close>.
  \<open>cleanupOldImages\<close> works on the file system only and has no counterpart here.
\<close>

definition initializeServos :: "machine \<Rightarrow> machine" where
  "initializeServos s =
     delay 1000 (s\<lparr>trapdoorAngle := TRAPDOOR_CLOSED, flipperAngle := FLIPPER_HOME\<rparr>)"

definition initializeLEDs :: "machine \<Rightarrow> machine" where
  "initializeLEDs s = setCameraLights False (setStatusLED LED_OFF s)"

definition arduino_setup :: "bool \<Rightarrow> bool \<Rightarrow> machine \<Rightarrow> machine" where
  "arduino_setup storage_ok camera_ok s0 =
     (let s1 = delay 1000 s0;
          initSuccess = (storage_ok \<and> camera_ok);
          s2 = initializeLEDs (initializeServos s1)
      in if \<not> initSuccess
         then setStatusLED LED_ERROR (s2\<lparr>currentState := STATE_ERROR\<rparr>)
         else changeState STATE_WAITING_FOR_COIN (performSystemTest s2))"

section \<open>Runs: edges and polls at given times\<close>

text \<open>
  The environment of the firmware: the optical sensor raises the interrupt at a time \<open>t\<close>,
  or the main loop starts a pass at a time \<open>t\<close> with the console line and the camera
  outcome of that pass. \<open>poll\<close> is a pass that no interrupt preempts: it runs to its
  end on the detector state it finds, and within it the clock moves only by the
  \<open>delay\<close> calls the pass makes. A pass that the interrupt does preempt is modelled
  where it matters, for the \<open>Processing\<close> handler, below.
\<close>

definition edge :: "ms \<Rightarrow> machine \<Rightarrow> machine" where
  "edge t s = sensorInterrupt (s\<lparr>clock := t\<rparr>)"

definition poll :: "ms \<Rightarrow> SerialCommand option \<Rightarrow> bool \<Rightarrow> machine \<Rightarrow> machine" where
  "poll t line capture_ok s = loop line capture_ok (s\<lparr>clock := t\<rparr>)"

datatype event = Edge ms | Poll ms "SerialCommand option" bool

fun step :: "event \<Rightarrow> machine \<Rightarrow> machine" where
  "step (Edge t) s = edge t s"
| "step (Poll t line capture_ok) s = poll t line capture_ok s"

fun run :: "event list \<Rightarrow> machine \<Rightarrow> machine" where
  "run [] s = s"
| "run (e # es) s = run es (step e s)"

text \<open>A burst of edges at the given times, and the machine after a successful start.\<close>

fun edges :: "ms list \<Rightarrow> machine \<Rightarrow> machine" where
  "edges [] s = s"
| "edges (t # ts) s = edges ts (edge t s)"

definition ready :: machine where
  "ready = arduino_setup True True power_on"

subsection \<open>An interrupt inside a pass\<close>

text \<open>
  \<open>sensorInterrupt\<close> is attached with \<open>attachInterrupt\<close> and can fire at any point of
  \<open>loop()\<close>. \<open>handleProcessing\<close> tests the trigger flag once, at its start, and reads
  the clock afterwards. \<open>handleProcessing_preempted t\<close> is the same function body with
  the interrupt taken at time \<open>t\<close> between the flag test and the reading of the clock.
\<close>

definition handleProcessing_preempted :: "ms \<Rightarrow> machine \<Rightarrow> machine" where
  "handleProcessing_preempted t s0 =
     (let s1 = setStatusLED LED_PROCESSING s0 in
      if isSensorTriggered s1
      then (changeState STATE_REJECTING (resetSensorCount (clearSensorTrigger s1)))
             \<lparr>lastError := STATUS_COIN_DURING_PROCESSING\<rparr>
      else
        let s2 = edge t s1;
            timeInState = millis s2 - stateStartTime s2
        in if timeInState \<ge> 500
           then (changeState STATE_PHOTOGRAPHING s2)\<lparr>currentPhotoStep := 0\<rparr>
           else s2)"

text \<open>
  \<open>timed_out_passes start es\<close>: every pass of the run \<open>es\<close> starts more than
  \<open>RESET_TIMEOUT\<close> after \<open>start\<close>.
\<close>

fun timed_out_passes :: "ms \<Rightarrow> event list \<Rightarrow> bool" where
  "timed_out_passes start [] = True"
| "timed_out_passes start (Edge t # es) = timed_out_passes start es"
| "timed_out_passes start (Poll t line capture_ok # es) =
     (RESET_TIMEOUT < t - start \<and> timed_out_passes start es)"

subsection \<open>Bursts of edges in real time\<close>

text \<open>
  Edge times in milliseconds since power-up, as natural numbers; the interrupt handler
  sees such a time through \<open>millis()\<close>, that is, modulo \<open>2 ^ 32\<close> (\<open>of_nat\<close>).
  \<open>spaced_apart p ts\<close>: each edge of \<open>ts\<close> arrives at least the debounce interval after
  the one before it, the first one after \<open>p\<close>. \<open>within_debounce_of_previous p ts\<close>: each
  edge arrives less than the debounce interval after the one before it. Both follow the
  wording of the specification.
\<close>

fun spaced_apart :: "nat \<Rightarrow> nat list \<Rightarrow> bool" where
  "spaced_apart prev [] = True"
| "spaced_apart prev (t # ts) = (prev + unat SENSOR_DEBOUNCE_TIME \<le> t \<and> spaced_apart t ts)"

fun within_debounce_of_previous :: "nat \<Rightarrow> nat list \<Rightarrow> bool" where
  "within_debounce_of_previous prev [] = True"
| "within_debounce_of_previous prev (t # ts) =
     (prev \<le> t \<and> t < prev + unat SENSOR_DEBOUNCE_TIME \<and> within_debounce_of_previous t ts)"

subsection \<open>Example runs\<close>

text \<open>
  A coin passes the sensor 10 s after power-up, is seen by the pass that starts in the same
  millisecond, and the detection window is closed by the pass at 11 s: the machine is in
  \<open>Processing\<close> since 11000.
\<close>

definition one_coin_accepted :: "event list" where
  "one_coin_accepted = [Edge 10000, Poll 10000 None True, Poll 11000 None True]"

text \<open>
  Two coins 60 ms apart, the first seen by a pass 5 ms after its edge, or by a pass in the
  same millisecond as its edge; the detection window is still open.
\<close>

definition two_coins_window_open :: "event list" where
  "two_coins_window_open = [Edge 10000, Poll 10005 None True, Edge 10060]"

definition two_coins_same_ms :: "event list" where
  "two_coins_same_ms = [Edge 10000, Poll 10000 None True, Edge 10060]"

text \<open>
  Edges at 10000 and 10060 are both counted; the closing pass at 11005 rejects the pair,
  and a further edge at 12000 arrives while the trapdoor is open.
\<close>

definition two_coins_rejected :: "event list" where
  "two_coins_rejected =
     [Edge 10000, Poll 10005 None True, Edge 10060, Poll 11005 None True, Edge 12000]"

text \<open>
  The example of the specification, 10 s after power-up: a second edge 40 ms after the
  first, the first one seen by the pass that starts in the same millisecond.
\<close>

definition bounce_after_40ms :: "event list" where
  "bounce_after_40ms = [Edge 10000, Poll 10000 None True, Edge 10040]"

text \<open>
  An accepted coin on its way through the photography sequence: \<open>Photographing\<close> is
  entered at 11505, and the pass at 11515 has sent the flipper to the first side (step 1).
\<close>

definition photographing_step1 :: "event list" where
  "photographing_step1 =
     [Edge 10000, Poll 10005 None True, Poll 11005 None True, Poll 11505 None True,
      Poll 11515 None True]"

text \<open>
  The machine is left alone after start-up (\<open>WaitingForCoin\<close> since 10000); a coin
  passes the sensor at 45000; passes of the loop follow, one of them with a reset
  command on the console.
\<close>

definition idle_then_coin :: "event list" where
  "idle_then_coin =
     [Edge 45000, Poll 45010 None True, Poll 50020 None True, Poll 55030 None True,
      Poll 60040 (Some CmdReset) True, Poll 65050 None True]"

text \<open>A start-up at which the camera does not initialise.\<close>

definition camera_init_failed :: machine where
  "camera_init_failed = arduino_setup True False power_on"

section \<open>Auxiliary predicates\<close>

text \<open>
  \<open>recovering s\<close>: a call of \<open>handleError\<close> in \<open>s\<close> ends with the report count at 3 or
  more, that is, it resets the system. \<open>clean s\<close>: if the machine is in
  \<open>WaitingForCoin\<close>, no error is active, no edge is counted and the processing flag is
  down.
\<close>

definition recovering :: "machine \<Rightarrow> bool" where
  "recovering s = (3 \<le> errorCount s + (if 5000 < clock s - lastErrorReport s then 1 else 0))"

definition clean :: "machine \<Rightarrow> bool" where
  "clean s = (currentState s = STATE_WAITING_FOR_COIN \<longrightarrow>
               lastError s = STATUS_OK \<and> sensorTriggerCount s = 0 \<and> \<not> processingCoin s)"

section \<open>Unfolding rules\<close>

lemmas const_defs = TRAPDOOR_OPEN_TIME_def SERVO_MOVE_DELAY_def FLIPPER_PHOTO_DELAY_def
  SENSOR_DEBOUNCE_TIME_def MULTI_COIN_TIMEOUT_def CAMERA_WARMUP_TIME_def PROCESSING_TIMEOUT_def
  RESET_TIMEOUT_def TRAPDOOR_CLOSED_def TRAPDOOR_OPEN_def FLIPPER_HOME_def FLIPPER_SIDE_1_def
  FLIPPER_SIDE_2_def MULTI_COIN_THRESHOLD_def LED_READY_def LED_PROCESSING_def LED_BUSY_def
  LED_ERROR_def LED_OFF_def IMAGE_FILENAME_PREFIX_def IMAGE_FILENAME_SUFFIX_def

lemmas hw_defs = millis_def delay_def setTrapdoorPosition_def setFlipperPosition_def
  openTrapdoor_def closeTrapdoor_def moveFlipperHome_def moveFlipperToSide1_def
  moveFlipperToSide2_def setStatusLED_def setCameraLights_def captureAndSaveImage_def
  isSensorTriggered_def clearSensorTrigger_def resetSensorCount_def
  isMultipleCoinDetected_def systemReset_def performSystemTest_def generateImageFilename_def

lemmas handler_defs = handleWaitingForCoin_def handleCoinDetected_def handleProcessing_def
  photoSwitch_def handlePhotographing_def handleRejecting_def processSerialCommands_def

lemmas run_defs = edge_def poll_def sensorInterrupt_def ready_def arduino_setup_def
  initializeServos_def initializeLEDs_def power_on_def loop_def changeState_def
  handleError_def

lemmas example_defs = one_coin_accepted_def two_coins_window_open_def two_coins_same_ms_def
  two_coins_rejected_def bounce_after_40ms_def photographing_step1_def camera_init_failed_def
  idle_then_coin_def

lemmas eval_defs = run_defs handler_defs hw_defs const_defs Let_def

text \<open>
  The recursion equation of \<open>decimal\<close> is kept out of the simplifier: file names are
  carried along, never compared.
\<close>

declare decimal.simps [simp del]

section \<open>Field-by-field effect of the state change and of the error handler\<close>

lemma changeState_proj:
  "currentState (changeState n s) = n"
  "lastError (changeState n s) =
     (if n \<noteq> currentState s \<and> n = STATE_WAITING_FOR_COIN then STATUS_OK else lastError s)"
  "sensorTriggerCount (changeState n s) =
     (if n \<noteq> currentState s \<and> n = STATE_WAITING_FOR_COIN then 0 else sensorTriggerCount s)"
  "sensorWindowStart (changeState n s) =
     (if n \<noteq> currentState s \<and> n = STATE_WAITING_FOR_COIN then 0 else sensorWindowStart s)"
  "processingCoin (changeState n s) =
     (if n \<noteq> currentState s \<and> n = STATE_WAITING_FOR_COIN then False else processingCoin s)"
  "stateStartTime (changeState n s) = (if n \<noteq> currentState s then clock s else stateStartTime s)"
  "sensorTriggered (changeState n s) = sensorTriggered s"
  "lastSensorTrigger (changeState n s) = lastSensorTrigger s"
  "clock (changeState n s) = clock s"
  "errorCount (changeState n s) = errorCount s"
  "lastErrorReport (changeState n s) = lastErrorReport s"
  "errorLog (changeState n s) = errorLog s"
  "currentPhotoStep (changeState n s) = currentPhotoStep s"
  "flipperMoveTime (changeState n s) = flipperMoveTime s"
  "trapdoorAngle (changeState n s) = trapdoorAngle s"
  "flipperAngle (changeState n s) = flipperAngle s"
  "statusLED (changeState n s) = statusLED s"
  "cameraLights (changeState n s) = cameraLights s"
  by (simp_all add: changeState_def hw_defs Let_def)

lemma handleError_proj:
  "currentState (handleError e s) =
     (if recovering s then STATE_WAITING_FOR_COIN else currentState s)"
  "lastError (handleError e s) =
     (if recovering s \<and> currentState s \<noteq> STATE_WAITING_FOR_COIN then STATUS_OK else lastError s)"
  "sensorTriggerCount (handleError e s) = (if recovering s then 0 else sensorTriggerCount s)"
  "sensorWindowStart (handleError e s) = (if recovering s then 0 else sensorWindowStart s)"
  "processingCoin (handleError e s) =
     (if recovering s \<and> currentState s \<noteq> STATE_WAITING_FOR_COIN then False else processingCoin s)"
  "stateStartTime (handleError e s) =
     (if recovering s \<and> currentState s \<noteq> STATE_WAITING_FOR_COIN
      then clock s + 1000 else stateStartTime s)"
  "sensorTriggered (handleError e s) = sensorTriggered s"
  "lastSensorTrigger (handleError e s) = lastSensorTrigger s"
  "currentPhotoStep (handleError e s) = currentPhotoStep s"
  "errorCount (handleError e s) =
     (if recovering s then 0
      else errorCount s + (if 5000 < clock s - lastErrorReport s then 1 else 0))"
  "lastErrorReport (handleError e s) =
     (if 5000 < clock s - lastErrorReport s then clock s else lastErrorReport s)"
  "errorLog (handleError e s) =
     errorLog s @ (if 5000 < clock s - lastErrorReport s then [errorMessage e] else [])"
  "trapdoorAngle (handleError e s) = (if recovering s then TRAPDOOR_CLOSED else trapdoorAngle s)"
  "flipperAngle (handleError e s) = (if recovering s then FLIPPER_HOME else flipperAngle s)"
  "statusLED (handleError e s) = (if recovering s then LED_OFF else LED_ERROR)"
  "cameraLights (handleError e s) = (if recovering s then False else cameraLights s)"
  by (simp_all add: handleError_def recovering_def changeState_def hw_defs Let_def)

lemma handleError_state:
  "currentState (handleError e s) =
     (if 3 \<le> errorCount s + (if 5000 < clock s - lastErrorReport s then 1 else 0)
      then STATE_WAITING_FOR_COIN else currentState s)"
  by (simp add: handleError_def changeState_def hw_defs Let_def)

lemma handleError_lastError:
  "lastError (handleError e s) = lastError s \<or> lastError (handleError e s) = STATUS_OK"
  by (simp add: handleError_def changeState_def hw_defs Let_def)

section \<open>What edges, the console and delays leave alone\<close>

lemma edge_frame:
  "currentState (edge t s) = currentState s"
  "stateStartTime (edge t s) = stateStartTime s"
  "lastError (edge t s) = lastError s"
  "errorCount (edge t s) = errorCount s"
  "clock (edge t s) = t"
  by (simp_all add: edge_def sensorInterrupt_def hw_defs Let_def)

lemma edge_latches:
  "SENSOR_DEBOUNCE_TIME \<le> t - lastSensorTrigger s \<Longrightarrow> sensorTriggered (edge t s)"
  by (simp add: edge_def sensorInterrupt_def hw_defs Let_def leD)

lemma edge_keeps_latch: "sensorTriggered s \<Longrightarrow> sensorTriggered (edge t s)"
  by (simp add: edge_def sensorInterrupt_def hw_defs Let_def)

lemma edges_frame:
  "currentState (edges ts s) = currentState s \<and> stateStartTime (edges ts s) = stateStartTime s"
  by (induction ts arbitrary: s) (simp_all add: edge_frame)

lemma edges_keep_latch: "sensorTriggered s \<Longrightarrow> sensorTriggered (edges ts s)"
  by (induction ts arbitrary: s) (simp_all add: edge_keeps_latch)

lemma serial_frame:
  "line \<noteq> Some CmdReset \<Longrightarrow>
     currentState (processSerialCommands line s) = currentState s
   \<and> lastError (processSerialCommands line s) = lastError s
   \<and> sensorTriggerCount (processSerialCommands line s) = sensorTriggerCount s
   \<and> sensorWindowStart (processSerialCommands line s) = sensorWindowStart s
   \<and> sensorTriggered (processSerialCommands line s) = sensorTriggered s
   \<and> lastSensorTrigger (processSerialCommands line s) = lastSensorTrigger s"
  by (cases line) (simp_all add: processSerialCommands_def hw_defs Let_def split: SerialCommand.splits)

lemma serial_error_frame:
  "line \<noteq> Some CmdReset \<Longrightarrow>
     errorCount (processSerialCommands line s) = errorCount s
   \<and> lastErrorReport (processSerialCommands line s) = lastErrorReport s"
  by (cases line) (simp_all add: processSerialCommands_def hw_defs Let_def split: SerialCommand.splits)

lemma serial_reset:
  "currentState (processSerialCommands (Some CmdReset) s) = STATE_WAITING_FOR_COIN"
  by (simp add: processSerialCommands_def changeState_proj)

lemma delay_frame:
  "currentState (delay d s) = currentState s"
  "lastError (delay d s) = lastError s"
  "sensorTriggerCount (delay d s) = sensorTriggerCount s"
  "sensorWindowStart (delay d s) = sensorWindowStart s"
  "sensorTriggered (delay d s) = sensorTriggered s"
  "lastSensorTrigger (delay d s) = lastSensorTrigger s"
  by (simp_all add: delay_def)

section \<open>Debounce and edge counting\<close>

lemma edge_debounced:
  "t - lastSensorTrigger s < SENSOR_DEBOUNCE_TIME \<Longrightarrow> edge t s = s\<lparr>clock := t\<rparr>"
  by (simp add: edge_def sensorInterrupt_def millis_def Let_def)

lemma edge_counted:
  assumes "SENSOR_DEBOUNCE_TIME \<le> t - lastSensorTrigger s"
  shows "sensorTriggerCount (edge t s) = sensorTriggerCount s + 1"
    and "lastSensorTrigger (edge t s) = t"
    and "sensorWindowStart (edge t s) = (if sensorTriggerCount s = 0 then t else sensorWindowStart s)"
  using assms by (simp_all add: edge_def sensorInterrupt_def millis_def Let_def leD)

lemma gap_unat:
  assumes "p \<le> t" and "t - p < 2 ^ 32"
  shows "unat (of_nat t - of_nat p :: 32 word) = t - p"
proof -
  have "(of_nat t - of_nat p :: 32 word) = of_nat (t - p)"
    using assms(1) by simp
  then show ?thesis using assms(2) by (simp add: unat_of_nat)
qed

lemma gap_short:
  assumes "p \<le> t" and "t < p + unat SENSOR_DEBOUNCE_TIME"
  shows "(of_nat t - of_nat p :: 32 word) < SENSOR_DEBOUNCE_TIME"
  using assms gap_unat [of p t]
  by (simp add: word_less_nat_alt SENSOR_DEBOUNCE_TIME_def)

lemma gap_long:
  assumes "p + unat SENSOR_DEBOUNCE_TIME \<le> t" and "t \<le> p + unat MULTI_COIN_TIMEOUT"
  shows "SENSOR_DEBOUNCE_TIME \<le> (of_nat t - of_nat p :: 32 word)"
  using assms gap_unat [of p t]
  by (simp add: word_le_nat_alt SENSOR_DEBOUNCE_TIME_def MULTI_COIN_TIMEOUT_def)

lemma edges_all_debounced:
  assumes "lastSensorTrigger s = of_nat p"
      and "\<forall>t\<in>set ts. p \<le> t \<and> t < p + unat SENSOR_DEBOUNCE_TIME"
  shows "sensorTriggerCount (edges (map of_nat ts) s) = sensorTriggerCount s"
  using assms
proof (induction ts arbitrary: s)
  case Nil
  then show ?case by simp
next
  case (Cons t ts)
  have "(of_nat t - lastSensorTrigger s) < SENSOR_DEBOUNCE_TIME"
    using Cons.prems gap_short [of p t] by simp
  then have e: "edge (of_nat t) s = s\<lparr>clock := of_nat t\<rparr>"
    by (rule edge_debounced)
  show ?case
    using Cons.IH [of "s\<lparr>clock := of_nat t\<rparr>"] Cons.prems by (simp add: e)
qed

lemma edges_all_counted:
  assumes "lastSensorTrigger s = of_nat p"
      and "sensorTriggerCount s > 0"
      and "spaced_apart p ts"
      and "\<forall>t\<in>set ts. t \<le> p0 + unat MULTI_COIN_TIMEOUT"
      and "p0 \<le> p"
  shows "sensorTriggerCount (edges (map of_nat ts) s) = sensorTriggerCount s + int (length ts)
       \<and> sensorWindowStart (edges (map of_nat ts) s) = sensorWindowStart s"
  using assms
proof (induction ts arbitrary: s p)
  case Nil
  then show ?case by simp
next
  case (Cons t ts)
  have sp: "p + unat SENSOR_DEBOUNCE_TIME \<le> t" "spaced_apart t ts"
    using Cons.prems(3) by simp_all
  have le: "t \<le> p + unat MULTI_COIN_TIMEOUT"
    using Cons.prems(4,5) by simp
  have g: "SENSOR_DEBOUNCE_TIME \<le> of_nat t - lastSensorTrigger s"
    using gap_long [OF sp(1) le] Cons.prems(1) by simp
  note c = edge_counted [OF g]
  have "sensorTriggerCount (edges (map of_nat ts) (edge (of_nat t) s))
          = sensorTriggerCount (edge (of_nat t) s) + int (length ts)
      \<and> sensorWindowStart (edges (map of_nat ts) (edge (of_nat t) s))
          = sensorWindowStart (edge (of_nat t) s)"
  proof (rule Cons.IH [of "edge (of_nat t) s" t])
    show "lastSensorTrigger (edge (of_nat t) s) = of_nat t" by (rule c(2))
    show "0 < sensorTriggerCount (edge (of_nat t) s)" using c(1) Cons.prems(2) by simp
    show "spaced_apart t ts" by (rule sp(2))
    show "\<forall>t\<in>set ts. t \<le> p0 + unat MULTI_COIN_TIMEOUT" using Cons.prems(4) by simp
    show "p0 \<le> t" using sp(1) Cons.prems(5) by simp
  qed
  then show ?case using c Cons.prems(2) by simp
qed

text \<open>
  C5, as the code has it. The debounce interval is measured from the last edge that was
  counted, not from the previous edge: an edge less than \<open>SENSOR_DEBOUNCE_TIME\<close> after
  the last counted edge changes nothing. So, for a detector with count 0 whose first
  edge at \<open>t0\<close> passes the debounce test: if all further edges arrive less than the
  debounce interval after \<open>t0\<close>, the count after the burst is 1; and if the edges are
  spaced at least the debounce interval apart and all arrive within
  \<open>MULTI_COIN_TIMEOUT\<close> of \<open>t0\<close>, the count equals the number of edges and the window
  starts at \<open>t0\<close>. The times are real times; the handler sees them modulo \<open>2 ^ 32\<close>.
\<close>

theorem edge_counting:
  assumes "sensorTriggerCount s = 0"
      and "SENSOR_DEBOUNCE_TIME \<le> of_nat t0 - lastSensorTrigger s"
  shows "((\<forall>t\<in>set ts. t0 \<le> t \<and> t < t0 + unat SENSOR_DEBOUNCE_TIME) \<longrightarrow>
            sensorTriggerCount (edges (map of_nat (t0 # ts)) s) = 1)
       \<and> (spaced_apart t0 ts \<and> (\<forall>t\<in>set ts. t \<le> t0 + unat MULTI_COIN_TIMEOUT) \<longrightarrow>
            sensorTriggerCount (edges (map of_nat (t0 # ts)) s) = int (length (t0 # ts))
          \<and> sensorWindowStart (edges (map of_nat (t0 # ts)) s) = of_nat t0)
       \<and> (u - lastSensorTrigger r < SENSOR_DEBOUNCE_TIME \<longrightarrow> edge u r = r\<lparr>clock := u\<rparr>)"
proof -
  note c = edge_counted [OF assms(2)]
  have 1: "sensorTriggerCount (edges (map of_nat (t0 # ts)) s) = 1"
    if "\<forall>t\<in>set ts. t0 \<le> t \<and> t < t0 + unat SENSOR_DEBOUNCE_TIME"
    using edges_all_debounced [OF c(2) that] c(1) assms(1) by simp
  have 2: "sensorTriggerCount (edges (map of_nat (t0 # ts)) s) = int (length (t0 # ts))
          \<and> sensorWindowStart (edges (map of_nat (t0 # ts)) s) = of_nat t0"
    if "spaced_apart t0 ts" "\<forall>t\<in>set ts. t \<le> t0 + unat MULTI_COIN_TIMEOUT"
  proof -
    have "0 < sensorTriggerCount (edge (of_nat t0) s)" using c(1) assms(1) by simp
    from edges_all_counted [OF c(2) this that le_refl]
    show ?thesis using c assms(1) by simp
  qed
  show ?thesis using 1 2 edge_debounced [of u r] by blast
qed

text \<open>
  The theorem at the machine after start-up: a burst at 10000, 10020, 10049 counts once;
  edges at 10000, 10050, 10500 and 11000 count four times.
\<close>

theorem edge_counting_witness:
  "sensorTriggerCount ready = 0
   \<and> SENSOR_DEBOUNCE_TIME \<le> of_nat 10000 - lastSensorTrigger ready
   \<and> sensorTriggerCount (edges (map of_nat [10000, 10020, 10049]) ready) = 1
   \<and> spaced_apart 10000 [10050, 10500, 11000]
   \<and> sensorTriggerCount (edges (map of_nat [10000, 10050, 10500, 11000]) ready) = 4
   \<and> sensorWindowStart (edges (map of_nat [10000, 10050, 10500, 11000]) ready) = 10000"
proof -
  have h: "sensorTriggerCount ready = 0"
          "SENSOR_DEBOUNCE_TIME \<le> of_nat 10000 - lastSensorTrigger ready"
    by (simp_all add: eval_defs)
  have a: "\<forall>t\<in>set [10020, 10049]. 10000 \<le> t \<and> t < 10000 + unat SENSOR_DEBOUNCE_TIME"
    by (simp add: SENSOR_DEBOUNCE_TIME_def)
  have b: "spaced_apart 10000 [10050, 10500, 11000]"
          "\<forall>t\<in>set [10050, 10500, 11000]. t \<le> 10000 + unat MULTI_COIN_TIMEOUT"
    by (simp_all add: SENSOR_DEBOUNCE_TIME_def MULTI_COIN_TIMEOUT_def)
  show ?thesis
    using h a b edge_counting [OF h, where ts = "[10020, 10049]"]
      edge_counting [OF h, where ts = "[10050, 10500, 11000]"]
    by simp
qed

text \<open>
  The first half of the claim as the spec words it fails: in the burst 10000, 10040,
  10080 each edge arrives 40 ms after the previous one, and the third edge is counted,
  being 80 ms after the last counted one.
\<close>

theorem only_first_edge_counted_counterexample:
  "within_debounce_of_previous 10000 [10040, 10080]
   \<and> sensorTriggerCount (edges (map of_nat [10000, 10040, 10080]) ready) = 2"
  by (simp add: eval_defs)

section \<open>The worked example: two edges 40 ms apart\<close>

text \<open>
  C4, as the code has it. The machine waits for a coin with a reset detector; an edge
  arrives at time \<open>T\<close>, passes the debounce test and is seen by the pass that starts at
  \<open>T\<close>. A second edge 40 ms later is inside the 50 ms debounce interval and is dropped:
  the count stays 1, and the pass at \<open>T + 1000\<close> closes the window with count 1 and moves
  to \<open>Processing\<close>, exactly as it does when the first edge is the only one.
\<close>

theorem second_edge_debounced:
  assumes "currentState s = STATE_WAITING_FOR_COIN"
      and "sensorTriggerCount s = 0"
      and "SENSOR_DEBOUNCE_TIME \<le> T - lastSensorTrigger s"
      and "T - stateStartTime s \<le> RESET_TIMEOUT"
  shows "sensorTriggerCount (edge (T + 40) (poll T None cap (edge T s))) = 1
       \<and> currentState (poll (T + 1000) None cap' (edge (T + 40) (poll T None cap (edge T s))))
            = STATE_PROCESSING
       \<and> sensorTriggerCount (poll T None cap (edge T s)) = 1
       \<and> currentState (poll (T + 1000) None cap' (poll T None cap (edge T s)))
            = STATE_PROCESSING"
  using assms
  by (simp add: poll_def edge_def sensorInterrupt_def loop_def handleWaitingForCoin_def
        handleCoinDetected_def processSerialCommands_def changeState_def hw_defs const_defs
        Let_def leD)

text \<open>The theorem at the machine after start-up, with \<open>T = 10000\<close>.\<close>

theorem second_edge_debounced_witness:
  "currentState ready = STATE_WAITING_FOR_COIN
   \<and> sensorTriggerCount ready = 0
   \<and> SENSOR_DEBOUNCE_TIME \<le> 10000 - lastSensorTrigger ready
   \<and> 10000 - stateStartTime ready \<le> RESET_TIMEOUT
   \<and> sensorTriggerCount (edge (10000 + 40) (poll 10000 None True (edge 10000 ready))) = 1
   \<and> currentState (poll (10000 + 1000) None True
        (edge (10000 + 40) (poll 10000 None True (edge 10000 ready)))) = STATE_PROCESSING
   \<and> sensorTriggerCount (poll 10000 None True (edge 10000 ready)) = 1
   \<and> currentState (poll (10000 + 1000) None True (poll 10000 None True (edge 10000 ready)))
        = STATE_PROCESSING"
proof -
  have h: "currentState ready = STATE_WAITING_FOR_COIN" "sensorTriggerCount ready = 0"
          "SENSOR_DEBOUNCE_TIME \<le> 10000 - lastSensorTrigger ready"
          "10000 - stateStartTime ready \<le> RESET_TIMEOUT"
    by (simp_all add: eval_defs)
  show ?thesis
    using h second_edge_debounced [OF h, where cap = True and cap' = True] by blast
qed

text \<open>
  The example as the spec gives it fails: after edges at 10000 and 10040 the count is 1,
  not 2, and the pass that closes the window at 11000 goes to \<open>Processing\<close>, not to
  \<open>Rejecting\<close>.
\<close>

theorem two_edges_40ms_counterexample:
  "sensorTriggerCount (run bounce_after_40ms ready) = 1
   \<and> MULTI_COIN_TIMEOUT \<le> 11000 - sensorWindowStart (run bounce_after_40ms ready)
   \<and> currentState (run (bounce_after_40ms @ [Poll 11000 None True]) ready) = STATE_PROCESSING
   \<and> lastError (run (bounce_after_40ms @ [Poll 11000 None True]) ready) = STATUS_OK"
  by (simp add: bounce_after_40ms_def eval_defs)

section \<open>The decision in CoinDetected\<close>

text \<open>
  C3, as the code has it. The \<open>CoinDetected\<close> handler waits for the time spent in
  \<open>CoinDetected\<close> (not the age of the detection window) to reach \<open>MULTI_COIN_TIMEOUT\<close>;
  until then it only sets the indicator. From then on: if the edge count is at least
  \<open>MULTI_COIN_THRESHOLD\<close> and the window age is strictly greater than
  \<open>MULTI_COIN_TIMEOUT\<close>, the machine goes to \<open>Rejecting\<close> with \<open>MultipleCoins\<close>; if the
  count is below the threshold (0 or 1), it goes to \<open>Processing\<close> and the error is left
  as it was; in every case the count and the window start are reset.
\<close>

theorem coin_detected_decision:
  assumes "currentState s = STATE_COIN_DETECTED"
  shows "(clock s - stateStartTime s < MULTI_COIN_TIMEOUT \<longrightarrow>
            handleCoinDetected s = s\<lparr>statusLED := LED_PROCESSING\<rparr>)
       \<and> (MULTI_COIN_TIMEOUT \<le> clock s - stateStartTime s \<longrightarrow>
            (MULTI_COIN_THRESHOLD \<le> sensorTriggerCount s
               \<and> MULTI_COIN_TIMEOUT < clock s - sensorWindowStart s \<longrightarrow>
                 currentState (handleCoinDetected s) = STATE_REJECTING
               \<and> lastError (handleCoinDetected s) = STATUS_MULTIPLE_COINS)
          \<and> (sensorTriggerCount s < MULTI_COIN_THRESHOLD \<longrightarrow>
                 currentState (handleCoinDetected s) = STATE_PROCESSING
               \<and> lastError (handleCoinDetected s) = lastError s)
          \<and> sensorTriggerCount (handleCoinDetected s) = 0
          \<and> sensorWindowStart (handleCoinDetected s) = 0)"
  using assms
  by (simp add: handleCoinDetected_def changeState_proj hw_defs Let_def MULTI_COIN_THRESHOLD_def leD)

text \<open>
  The theorem at two coins 60 ms apart, the machine in \<open>CoinDetected\<close> since 10005, the
  handler running at 11005: rejected. And at one coin with a bounce, the machine in
  \<open>CoinDetected\<close> since 10000, the handler running at 11000: accepted.
\<close>

theorem coin_detected_decision_witness:
  "currentState ((run two_coins_window_open ready)\<lparr>clock := 11005\<rparr>) = STATE_COIN_DETECTED
   \<and> MULTI_COIN_TIMEOUT \<le> clock ((run two_coins_window_open ready)\<lparr>clock := 11005\<rparr>)
        - stateStartTime ((run two_coins_window_open ready)\<lparr>clock := 11005\<rparr>)
   \<and> MULTI_COIN_THRESHOLD \<le> sensorTriggerCount ((run two_coins_window_open ready)\<lparr>clock := 11005\<rparr>)
   \<and> MULTI_COIN_TIMEOUT < clock ((run two_coins_window_open ready)\<lparr>clock := 11005\<rparr>)
        - sensorWindowStart ((run two_coins_window_open ready)\<lparr>clock := 11005\<rparr>)
   \<and> currentState (handleCoinDetected ((run two_coins_window_open ready)\<lparr>clock := 11005\<rparr>))
        = STATE_REJECTING
   \<and> lastError (handleCoinDetected ((run two_coins_window_open ready)\<lparr>clock := 11005\<rparr>))
        = STATUS_MULTIPLE_COINS
   \<and> sensorTriggerCount (handleCoinDetected ((run two_coins_window_open ready)\<lparr>clock := 11005\<rparr>))
        = 0
   \<and> currentState ((run bounce_after_40ms ready)\<lparr>clock := 11000\<rparr>) = STATE_COIN_DETECTED
   \<and> MULTI_COIN_TIMEOUT \<le> clock ((run bounce_after_40ms ready)\<lparr>clock := 11000\<rparr>)
        - stateStartTime ((run bounce_after_40ms ready)\<lparr>clock := 11000\<rparr>)
   \<and> sensorTriggerCount ((run bounce_after_40ms ready)\<lparr>clock := 11000\<rparr>)
        < MULTI_COIN_THRESHOLD
   \<and> currentState (handleCoinDetected ((run bounce_after_40ms ready)\<lparr>clock := 11000\<rparr>))
        = STATE_PROCESSING
   \<and> sensorTriggerCount (handleCoinDetected ((run bounce_after_40ms ready)\<lparr>clock := 11000\<rparr>))
        = 0"
proof -
  let ?s = "(run two_coins_window_open ready)\<lparr>clock := 11005\<rparr>"
  let ?p = "(run bounce_after_40ms ready)\<lparr>clock := 11000\<rparr>"
  have h: "currentState ?s = STATE_COIN_DETECTED"
    by (simp add: example_defs eval_defs)
  have g: "MULTI_COIN_TIMEOUT \<le> clock ?s - stateStartTime ?s"
          "MULTI_COIN_THRESHOLD \<le> sensorTriggerCount ?s"
          "MULTI_COIN_TIMEOUT < clock ?s - sensorWindowStart ?s"
    by (simp_all add: example_defs eval_defs)
  have h': "currentState ?p = STATE_COIN_DETECTED"
    by (simp add: example_defs eval_defs)
  have g': "MULTI_COIN_TIMEOUT \<le> clock ?p - stateStartTime ?p"
           "sensorTriggerCount ?p < MULTI_COIN_THRESHOLD"
    by (simp_all add: example_defs eval_defs)
  show ?thesis
    using h g h' g' coin_detected_decision [OF h] coin_detected_decision [OF h'] by simp
qed

text \<open>
  The claim as the spec words it fails on the same two coins. With the machine in
  \<open>CoinDetected\<close> since 10005, the pass at 11000 finds the window 1000 ms old and the count
  at 2, and does nothing: the machine stays in \<open>CoinDetected\<close> and the count is not reset.
  With the machine in \<open>CoinDetected\<close> since 10000, the pass at 11000 finds the window
  exactly 1000 ms old and the count at 2, and accepts: \<open>isMultipleCoinDetected\<close> asks for
  a window strictly older than the timeout.
\<close>

theorem window_age_decision_counterexample:
  "sensorTriggerCount (run two_coins_window_open ready) = 2
   \<and> MULTI_COIN_TIMEOUT \<le> 11000 - sensorWindowStart (run two_coins_window_open ready)
   \<and> currentState (run (two_coins_window_open @ [Poll 11000 None True]) ready) = STATE_COIN_DETECTED
   \<and> sensorTriggerCount (run (two_coins_window_open @ [Poll 11000 None True]) ready) = 2
   \<and> sensorTriggerCount (run two_coins_same_ms ready) = 2
   \<and> MULTI_COIN_TIMEOUT \<le> 11000 - sensorWindowStart (run two_coins_same_ms ready)
   \<and> currentState (run (two_coins_same_ms @ [Poll 11000 None True]) ready) = STATE_PROCESSING
   \<and> lastError (run (two_coins_same_ms @ [Poll 11000 None True]) ready) = STATUS_OK"
  by (simp add: example_defs eval_defs)

section \<open>An edge during Processing\<close>

lemma handleProcessing_triggered:
  "sensorTriggered s \<Longrightarrow> currentState s = STATE_PROCESSING \<Longrightarrow>
     currentState (handleProcessing s) = STATE_REJECTING
   \<and> lastError (handleProcessing s) = STATUS_COIN_DURING_PROCESSING
   \<and> sensorTriggerCount (handleProcessing s) = 0
   \<and> sensorWindowStart (handleProcessing s) = 0
   \<and> \<not> sensorTriggered (handleProcessing s)"
  by (simp add: handleProcessing_def changeState_proj hw_defs Let_def)

text \<open>
  An edge taken between two passes. The machine is in \<open>Processing\<close>, with any edge count
  and any window start. An edge arrives at time \<open>t\<close> and is registered by the edge
  detector: it is not within the debounce interval of the last registered edge, or it
  comes on top of an edge that is still latched in the trigger flag. Any further edges
  may follow. Then a run of the \<open>Processing\<close> handler that starts afterwards, at any time
  \<open>u\<close>, moves the machine to \<open>Rejecting\<close> with \<open>CoinDuringProcessing\<close>, and the detector
  is reset: count 0, window start 0, trigger flag cleared. The same holds for the whole
  pass of the loop at \<open>u\<close>, provided the global timeout has not expired and the console
  does not ask for a reset in that pass.
\<close>

lemma edge_between_passes_rejects:
  assumes "currentState s = STATE_PROCESSING"
      and "SENSOR_DEBOUNCE_TIME \<le> t - lastSensorTrigger s \<or> sensorTriggered s"
  shows "(currentState (handleProcessing ((edges ts (edge t s))\<lparr>clock := u\<rparr>)) = STATE_REJECTING
        \<and> lastError (handleProcessing ((edges ts (edge t s))\<lparr>clock := u\<rparr>))
             = STATUS_COIN_DURING_PROCESSING
        \<and> sensorTriggerCount (handleProcessing ((edges ts (edge t s))\<lparr>clock := u\<rparr>)) = 0
        \<and> sensorWindowStart (handleProcessing ((edges ts (edge t s))\<lparr>clock := u\<rparr>)) = 0
        \<and> \<not> sensorTriggered (handleProcessing ((edges ts (edge t s))\<lparr>clock := u\<rparr>)))
       \<and> (u - stateStartTime s \<le> RESET_TIMEOUT \<and> line \<noteq> Some CmdReset \<longrightarrow>
            currentState (poll u line cap (edges ts (edge t s))) = STATE_REJECTING
          \<and> lastError (poll u line cap (edges ts (edge t s))) = STATUS_COIN_DURING_PROCESSING
          \<and> sensorTriggerCount (poll u line cap (edges ts (edge t s))) = 0
          \<and> sensorWindowStart (poll u line cap (edges ts (edge t s))) = 0
          \<and> \<not> sensorTriggered (poll u line cap (edges ts (edge t s))))"
proof -
  let ?e = "(edges ts (edge t s))\<lparr>clock := u\<rparr>"
  have st: "currentState ?e = STATE_PROCESSING" "stateStartTime ?e = stateStartTime s"
    using assms(1) by (simp_all add: edges_frame edge_frame)
  have "sensorTriggered (edge t s)"
    using assms(2) edge_latches [of t s] edge_keeps_latch [of s t] by blast
  then have tr: "sensorTriggered ?e"
    using edges_keep_latch [of "edge t s" ts] by simp
  note hp = handleProcessing_triggered [OF tr st(1)]
  have lp: "u - stateStartTime s \<le> RESET_TIMEOUT \<Longrightarrow>
            poll u line cap (edges ts (edge t s))
              = delay 10 (processSerialCommands line (handleProcessing ?e))"
    using st by (simp add: poll_def loop_def millis_def Let_def not_less [symmetric])
  show ?thesis
    using hp lp serial_frame [of line "handleProcessing ?e"]
    by (simp add: delay_frame)
qed

text \<open>
  When the interrupt it takes is dropped by the debounce test, the preempted handler is
  the handler.
\<close>

lemma handleProcessing_preempted_noop:
  assumes "t - lastSensorTrigger s < SENSOR_DEBOUNCE_TIME" and "\<not> sensorTriggered s"
  shows "handleProcessing_preempted t s = handleProcessing (s\<lparr>clock := t\<rparr>)"
  using assms
  by (simp add: handleProcessing_preempted_def handleProcessing_def edge_def
        sensorInterrupt_def changeState_def hw_defs Let_def)

text \<open>
  C6. The claim is what the handler is written for (its comment reads: check for
  additional coins during processing), and an edge taken between two passes is rejected
  as the claim says. But the flag is tested only once per pass, and the interrupt can
  fire after the test. In the machine that has been in \<open>Processing\<close> since 11000, with the
  flag down and the last registered edge at 10000, the pass at 11500 tests the flag, the
  second coin passes the sensor, and the pass goes on: 500 ms have elapsed, so the
  machine moves to \<open>Photographing\<close> with \<open>lastError = Ok\<close>. The edge is counted and
  latched, and no pass of \<open>Processing\<close> is left to see it. The same edge taken just
  before the pass is rejected.
\<close>

theorem edge_after_flag_test_is_missed:
  "currentState ((run one_coin_accepted ready)\<lparr>clock := 11500\<rparr>) = STATE_PROCESSING
   \<and> \<not> sensorTriggered ((run one_coin_accepted ready)\<lparr>clock := 11500\<rparr>)
   \<and> SENSOR_DEBOUNCE_TIME
        \<le> 11500 - lastSensorTrigger ((run one_coin_accepted ready)\<lparr>clock := 11500\<rparr>)
   \<and> currentState (handleProcessing_preempted 11500
        ((run one_coin_accepted ready)\<lparr>clock := 11500\<rparr>)) = STATE_PHOTOGRAPHING
   \<and> lastError (handleProcessing_preempted 11500
        ((run one_coin_accepted ready)\<lparr>clock := 11500\<rparr>)) = STATUS_OK
   \<and> sensorTriggerCount (handleProcessing_preempted 11500
        ((run one_coin_accepted ready)\<lparr>clock := 11500\<rparr>)) = 1
   \<and> sensorTriggered (handleProcessing_preempted 11500
        ((run one_coin_accepted ready)\<lparr>clock := 11500\<rparr>))
   \<and> currentState (handleProcessing
        ((edge 11500 (run one_coin_accepted ready))\<lparr>clock := 11500\<rparr>)) = STATE_REJECTING"
  by (simp add: handleProcessing_preempted_def example_defs eval_defs)

section \<open>Capture failure during photography\<close>



lemma serial_photo_state:
  "currentState (processSerialCommands line s) = STATE_PHOTOGRAPHING \<Longrightarrow>
     currentState s = STATE_PHOTOGRAPHING"
  by (cases line)
     (simp_all add: processSerialCommands_def changeState_proj hw_defs Let_def
        split: SerialCommand.splits)

lemma serial_photo_step:
  "currentPhotoStep (processSerialCommands line s) = currentPhotoStep s"
  by (cases line)
     (simp_all add: processSerialCommands_def changeState_proj hw_defs Let_def
        split: SerialCommand.splits)

lemma handler_enters_photographing:
  "currentState (handleWaitingForCoin s) \<noteq> STATE_PHOTOGRAPHING \<or> currentState s = STATE_PHOTOGRAPHING"
  "currentState (handleCoinDetected s) \<noteq> STATE_PHOTOGRAPHING \<or> currentState s = STATE_PHOTOGRAPHING"
  "currentState (handleRejecting s) \<noteq> STATE_PHOTOGRAPHING \<or> currentState s = STATE_PHOTOGRAPHING"
  "currentState (handleError e s) \<noteq> STATE_PHOTOGRAPHING \<or> currentState s = STATE_PHOTOGRAPHING"
  "currentState (handleProcessing s) = STATE_PHOTOGRAPHING \<Longrightarrow>
     currentState s \<noteq> STATE_PHOTOGRAPHING \<Longrightarrow> currentPhotoStep (handleProcessing s) = 0"
      apply (simp add: handleWaitingForCoin_def changeState_proj hw_defs Let_def)
     apply (simp add: handleCoinDetected_def changeState_proj hw_defs Let_def)
    apply (simp add: handleRejecting_def changeState_proj hw_defs Let_def)
   apply (simp add: handleError_proj)
  apply (simp add: handleProcessing_def changeState_proj hw_defs Let_def split: if_splits)
  done

lemma enter_photographing:
  assumes "currentState s \<noteq> STATE_PHOTOGRAPHING"
      and "currentState (loop line cap s) = STATE_PHOTOGRAPHING"
  shows "currentPhotoStep (loop line cap s) = 0"
proof (cases "RESET_TIMEOUT < clock s - stateStartTime s")
  case True
  then have "loop line cap s = handleError STATUS_TIMEOUT_ERROR s"
    by (simp add: loop_def millis_def)
  with assms handler_enters_photographing(4) [of STATUS_TIMEOUT_ERROR s] show ?thesis by simp
next
  case False
  show ?thesis
  proof (cases "currentState s")
    case STATE_INIT
    with False assms show ?thesis
      using serial_photo_state [of line "changeState STATE_WAITING_FOR_COIN s"]
      by (simp add: loop_def millis_def Let_def delay_frame changeState_proj)
  next
    case STATE_WAITING_FOR_COIN
    with False assms show ?thesis
      using serial_photo_state [of line "handleWaitingForCoin s"]
        handler_enters_photographing(1) [of s]
      by (simp add: loop_def millis_def Let_def delay_frame)
  next
    case STATE_COIN_DETECTED
    with False assms show ?thesis
      using serial_photo_state [of line "handleCoinDetected s"]
        handler_enters_photographing(2) [of s]
      by (simp add: loop_def millis_def Let_def delay_frame)
  next
    case STATE_PROCESSING
    with False assms show ?thesis
      using serial_photo_state [of line "handleProcessing s"]
        serial_photo_step [of line "handleProcessing s"]
        handler_enters_photographing(5) [of s]
      by (auto simp add: loop_def millis_def Let_def delay_def)
  next
    case STATE_PHOTOGRAPHING
    with assms show ?thesis by simp
  next
    case STATE_REJECTING
    with False assms show ?thesis
      using serial_photo_state [of line "handleRejecting s"]
        handler_enters_photographing(3) [of s]
      by (simp add: loop_def millis_def Let_def delay_frame)
  next
    case STATE_ERROR
    with False assms show ?thesis
      using serial_photo_state [of line "handleError (lastError s) s"]
        handler_enters_photographing(4) [of "lastError s" s]
      by (simp add: loop_def millis_def Let_def delay_frame)
  qed
qed

text \<open>
  C2. The second half of the claim holds: whenever a pass of the loop takes the machine
  from another state into \<open>Photographing\<close>, the step counter is 0
  (\<open>enter_photographing\<close>). The first half is what the code sets out to do and misses.
  On a failed capture the handler prints that the capture failed, calls
  \<open>handleError(STATUS_CAMERA_ERROR)\<close>, the handler of the \<open>Error\<close> state, and returns; but
  \<open>handleError\<close> neither calls \<open>changeState(STATE_ERROR)\<close> nor stores its argument in
  \<open>lastError\<close>, and the step counter is left where it was. For the coin of
  \<open>photographing_step1\<close> and a capture that fails in the pass at 12015, the error is
  reported, the machine is still in \<open>Photographing\<close> at step 1 with \<open>lastError = Ok\<close>, and
  the next pass, with a working camera, resumes the sequence of the same coin and
  reaches step 2. The claim has the machine in \<open>Error\<close> with \<open>CameraError\<close> and the
  sequence not resumed.
\<close>

theorem capture_failure_stays_in_photographing:
  "currentState (run photographing_step1 ready) = STATE_PHOTOGRAPHING
   \<and> currentPhotoStep (run photographing_step1 ready) = 1
   \<and> errorLog (run (photographing_step1 @ [Poll 12015 None False]) ready) = [''Camera error'']
   \<and> currentState (run (photographing_step1 @ [Poll 12015 None False]) ready) = STATE_PHOTOGRAPHING
   \<and> lastError (run (photographing_step1 @ [Poll 12015 None False]) ready) = STATUS_OK
   \<and> currentPhotoStep (run (photographing_step1 @ [Poll 12015 None False]) ready) = 1
   \<and> currentPhotoStep
        (run (photographing_step1 @ [Poll 12015 None False, Poll 12200 None True]) ready) = 2"
  by (simp add: example_defs eval_defs)

section \<open>The photography timeout\<close>





section \<open>The global timeout\<close>

text \<open>
  The timeout branch. A pass of the loop that finds the time in the current state
  strictly greater than \<open>RESET_TIMEOUT\<close> calls \<open>handleError(STATUS_TIMEOUT_ERROR)\<close> and
  returns. The state stays what it was, unless this call brings the report count to 3,
  in which case the machine is reset and goes to \<open>WaitingForCoin\<close>; \<open>lastError\<close> keeps
  its value or is cleared to \<open>Ok\<close>.
\<close>

lemma loop_timeout_branch:
  assumes "RESET_TIMEOUT < clock s - stateStartTime s"
  shows "loop line cap s = handleError STATUS_TIMEOUT_ERROR s
       \<and> currentState (loop line cap s) =
           (if 3 \<le> errorCount s + (if 5000 < clock s - lastErrorReport s then 1 else 0)
            then STATE_WAITING_FOR_COIN else currentState s)
       \<and> (lastError (loop line cap s) = lastError s \<or> lastError (loop line cap s) = STATUS_OK)"
proof -
  have "loop line cap s = handleError STATUS_TIMEOUT_ERROR s"
    using assms by (simp add: loop_def millis_def)
  then show ?thesis
    using handleError_state [of STATUS_TIMEOUT_ERROR s]
      handleError_lastError [of STATUS_TIMEOUT_ERROR s] by simp
qed

text \<open>
  No function that the loop calls assigns \<open>STATE_ERROR\<close>: a pass that does not start in
  \<open>Error\<close> does not end there, whatever the inputs.
\<close>

lemma not_error_changeState:
  "n \<noteq> STATE_ERROR \<Longrightarrow> currentState s \<noteq> STATE_ERROR \<Longrightarrow>
     currentState (changeState n s) \<noteq> STATE_ERROR"
  by (simp add: changeState_proj)

lemma not_error_handleError:
  "currentState s \<noteq> STATE_ERROR \<Longrightarrow> currentState (handleError e s) \<noteq> STATE_ERROR"
  by (simp add: handleError_proj)

lemma not_error_handlers:
  assumes "currentState s \<noteq> STATE_ERROR"
  shows "currentState (handleWaitingForCoin s) \<noteq> STATE_ERROR"
    and "currentState (handleCoinDetected s) \<noteq> STATE_ERROR"
    and "currentState (handleProcessing s) \<noteq> STATE_ERROR"
    and "currentState (handleRejecting s) \<noteq> STATE_ERROR"
    and "currentState (snd (photoSwitch cap s)) \<noteq> STATE_ERROR"
  using assms
  by (simp_all add: handleWaitingForCoin_def handleCoinDetected_def handleProcessing_def
        handleRejecting_def photoSwitch_def changeState_proj handleError_proj hw_defs Let_def)

lemma not_error_handlePhotographing:
  assumes "currentState s \<noteq> STATE_ERROR"
  shows "currentState (handlePhotographing cap s) \<noteq> STATE_ERROR"
proof -
  have "currentState (snd (photoSwitch cap (setStatusLED LED_BUSY s))) \<noteq> STATE_ERROR"
    using assms by (intro not_error_handlers(5)) (simp add: setStatusLED_def)
  then show ?thesis
    by (simp add: handlePhotographing_def Let_def split_beta not_error_handleError)
qed

lemma not_error_serial:
  "currentState s \<noteq> STATE_ERROR \<Longrightarrow>
     currentState (processSerialCommands line s) \<noteq> STATE_ERROR"
  by (cases line)
     (simp_all add: processSerialCommands_def changeState_proj hw_defs Let_def
        split: SerialCommand.splits)

lemma loop_never_enters_error:
  assumes "currentState s \<noteq> STATE_ERROR"
  shows "currentState (loop line cap s) \<noteq> STATE_ERROR"
  using assms
  by (cases "currentState s")
     (simp_all add: loop_def Let_def delay_frame not_error_serial not_error_handleError
        not_error_handlers not_error_handlePhotographing changeState_proj)

text \<open>
  C1. The code sets out to do what the claim says and misses. The pass that finds the
  state timed out prints that it performs a reset and calls
  \<open>handleError(STATUS_TIMEOUT_ERROR)\<close>. That function is the handler of the \<open>Error\<close>
  state (the dispatcher runs it as \<open>handleError(lastError)\<close>, and its report starts with
  \<open>ERROR STATE:\<close>), but it neither calls \<open>changeState(STATE_ERROR)\<close> nor stores its
  argument in \<open>lastError\<close>. At the machine held in \<open>Processing\<close> since 11000, the pass at
  41001, 30001 ms into the state, reports the timeout and leaves the machine in
  \<open>Processing\<close> with \<open>lastError = Ok\<close>; the claim has it in \<open>Error\<close> with
  \<open>TimeoutError\<close>.
\<close>

theorem timeout_pass_stays_out_of_error:
  "currentState (run one_coin_accepted ready) = STATE_PROCESSING
   \<and> RESET_TIMEOUT < 41001 - stateStartTime (run one_coin_accepted ready)
   \<and> currentState (run (one_coin_accepted @ [Poll 41001 None True]) ready) = STATE_PROCESSING
   \<and> lastError (run (one_coin_accepted @ [Poll 41001 None True]) ready) = STATUS_OK
   \<and> errorLog (run (one_coin_accepted @ [Poll 41001 None True]) ready) = [''Timeout error'']"
  by (simp add: example_defs eval_defs)

text \<open>
  The timeout branch applies to \<open>WaitingForCoin\<close> as well. A machine that has waited for a
  coin for more than \<open>RESET_TIMEOUT\<close> takes it on every pass: the state change of the
  recovery is to the state the machine is in already, so the state timer is not
  restarted, and the \<open>WaitingForCoin\<close> handler, the one that looks at the trigger flag,
  is not run.
\<close>

lemma waiting_timeout_pass:
  assumes "currentState s = STATE_WAITING_FOR_COIN"
      and "RESET_TIMEOUT < clock s - stateStartTime s"
  shows "currentState (loop line cap s) = STATE_WAITING_FOR_COIN
       \<and> stateStartTime (loop line cap s) = stateStartTime s
       \<and> sensorTriggered (loop line cap s) = sensorTriggered s"
proof -
  have "loop line cap s = handleError STATUS_TIMEOUT_ERROR s"
    using assms(2) by (simp add: loop_def millis_def)
  then show ?thesis using assms(1) by (simp add: handleError_proj)
qed

section \<open>Entering WaitingForCoin\<close>

text \<open>
  \<open>clean\<close> is kept by every function the main loop calls: a state change into
  \<open>WaitingForCoin\<close> establishes it, and nothing that runs in \<open>WaitingForCoin\<close>
  afterwards within the same pass sets an error, counts an edge or raises the flag.
\<close>

lemma clean_handleError: "clean s \<Longrightarrow> clean (handleError e s)"
  by (simp add: clean_def handleError_proj)

lemma clean_changeState: "clean s \<Longrightarrow> clean (changeState n s)"
  by (simp add: clean_def changeState_proj)

lemma clean_handleWaitingForCoin: "clean s \<Longrightarrow> clean (handleWaitingForCoin s)"
  by (simp add: clean_def handleWaitingForCoin_def changeState_proj hw_defs Let_def)

lemma clean_handleCoinDetected: "clean s \<Longrightarrow> clean (handleCoinDetected s)"
  by (simp add: clean_def handleCoinDetected_def changeState_proj hw_defs Let_def)

lemma clean_handleProcessing: "clean s \<Longrightarrow> clean (handleProcessing s)"
  by (simp add: clean_def handleProcessing_def changeState_proj hw_defs Let_def)

lemma clean_handleRejecting: "clean s \<Longrightarrow> clean (handleRejecting s)"
  by (simp add: clean_def handleRejecting_def changeState_proj hw_defs Let_def)

lemma clean_photoSwitch: "clean s \<Longrightarrow> clean (snd (photoSwitch cap s))"
  by (simp add: clean_def photoSwitch_def changeState_proj handleError_proj hw_defs Let_def)

lemma clean_setStatusLED: "clean (setStatusLED c s) = clean s"
  by (simp add: clean_def hw_defs)

lemma clean_handlePhotographing: "clean s \<Longrightarrow> clean (handlePhotographing cap s)"
proof -
  assume "clean s"
  then have "clean (snd (photoSwitch cap (setStatusLED LED_BUSY s)))"
    by (simp add: clean_photoSwitch clean_setStatusLED)
  then show ?thesis
    by (simp add: handlePhotographing_def Let_def split_beta clean_handleError)
qed

lemma clean_processSerialCommands: "clean s \<Longrightarrow> clean (processSerialCommands line s)"
  by (cases line) (simp_all add: clean_def processSerialCommands_def changeState_proj hw_defs Let_def
      split: SerialCommand.splits)

lemma clean_delay: "clean (delay d s) = clean s"
  by (simp add: clean_def hw_defs)

lemma clean_loop: "clean s \<Longrightarrow> clean (loop line cap s)"
  by (cases "currentState s")
     (simp_all add: loop_def Let_def clean_delay clean_processSerialCommands clean_handleError
       clean_changeState clean_handleWaitingForCoin clean_handleCoinDetected clean_handleProcessing
       clean_handlePhotographing clean_handleRejecting)

text \<open>
  C7. Every transition into \<open>WaitingForCoin\<close> from another state leaves
  \<open>lastError = Ok\<close>, the edge count at 0 and the processing flag cleared. This holds for
  the state change itself, for a whole pass of the main loop that starts in another state
  and ends in \<open>WaitingForCoin\<close> (whichever handler, timeout, error recovery or console
  reset made the transition), and for \<open>setup()\<close>.
\<close>

theorem entering_waiting_clears:
  assumes "currentState s \<noteq> STATE_WAITING_FOR_COIN"
  shows "(currentState (changeState STATE_WAITING_FOR_COIN s) = STATE_WAITING_FOR_COIN
          \<and> lastError (changeState STATE_WAITING_FOR_COIN s) = STATUS_OK
          \<and> sensorTriggerCount (changeState STATE_WAITING_FOR_COIN s) = 0
          \<and> \<not> processingCoin (changeState STATE_WAITING_FOR_COIN s))
       \<and> (currentState (loop line cap s) = STATE_WAITING_FOR_COIN \<longrightarrow>
            lastError (loop line cap s) = STATUS_OK
          \<and> sensorTriggerCount (loop line cap s) = 0
          \<and> \<not> processingCoin (loop line cap s))
       \<and> (currentState (arduino_setup storage_ok camera_ok s) = STATE_WAITING_FOR_COIN \<longrightarrow>
            lastError (arduino_setup storage_ok camera_ok s) = STATUS_OK
          \<and> sensorTriggerCount (arduino_setup storage_ok camera_ok s) = 0
          \<and> \<not> processingCoin (arduino_setup storage_ok camera_ok s))"
proof -
  have c: "clean s" using assms by (simp add: clean_def)
  have 1: "clean (loop line cap s)" using c by (rule clean_loop)
  have 2: "clean (arduino_setup storage_ok camera_ok s)"
    using assms
    by (simp add: clean_def arduino_setup_def initializeServos_def initializeLEDs_def
        changeState_proj hw_defs Let_def)
  show ?thesis using assms 1 2 by (simp add: clean_def changeState_proj)
qed

theorem entering_waiting_clears_witness:
  "currentState ((run two_coins_rejected ready)\<lparr>clock := 14005\<rparr>) = STATE_REJECTING
   \<and> lastError ((run two_coins_rejected ready)\<lparr>clock := 14005\<rparr>) = STATUS_MULTIPLE_COINS
   \<and> sensorTriggerCount ((run two_coins_rejected ready)\<lparr>clock := 14005\<rparr>) = 1
   \<and> currentState (loop None True ((run two_coins_rejected ready)\<lparr>clock := 14005\<rparr>))
        = STATE_WAITING_FOR_COIN
   \<and> lastError (loop None True ((run two_coins_rejected ready)\<lparr>clock := 14005\<rparr>)) = STATUS_OK
   \<and> sensorTriggerCount (loop None True ((run two_coins_rejected ready)\<lparr>clock := 14005\<rparr>)) = 0
   \<and> \<not> processingCoin (loop None True ((run two_coins_rejected ready)\<lparr>clock := 14005\<rparr>))"
proof -
  have h: "currentState ((run two_coins_rejected ready)\<lparr>clock := 14005\<rparr>)
             \<noteq> STATE_WAITING_FOR_COIN"
    by (simp add: example_defs eval_defs)
  have w: "currentState (loop None True ((run two_coins_rejected ready)\<lparr>clock := 14005\<rparr>))
             = STATE_WAITING_FOR_COIN"
    by (simp add: example_defs eval_defs)
  have b: "currentState ((run two_coins_rejected ready)\<lparr>clock := 14005\<rparr>) = STATE_REJECTING
   \<and> lastError ((run two_coins_rejected ready)\<lparr>clock := 14005\<rparr>) = STATUS_MULTIPLE_COINS
   \<and> sensorTriggerCount ((run two_coins_rejected ready)\<lparr>clock := 14005\<rparr>) = 1"
    by (simp add: example_defs eval_defs)
  show ?thesis
    using b w entering_waiting_clears [OF h, of None True] by blast
qed

section \<open>The detector reset and the trigger flag\<close>

lemma handleWaitingForCoin_triggered:
  "sensorTriggered s \<Longrightarrow> currentState s = STATE_WAITING_FOR_COIN \<Longrightarrow>
     currentState (handleWaitingForCoin s) = STATE_COIN_DETECTED
   \<and> sensorTriggerCount (handleWaitingForCoin s) = sensorTriggerCount s
   \<and> lastSensorTrigger (handleWaitingForCoin s) = lastSensorTrigger s
   \<and> \<not> sensorTriggered (handleWaitingForCoin s)"
  by (simp add: handleWaitingForCoin_def changeState_proj hw_defs Let_def)

text \<open>
  C9. \<open>resetSensorCount\<close> clears the edge count and the window start and leaves the
  trigger flag as it was; so does the state change into \<open>WaitingForCoin\<close>, which calls
  it. Hence, when the flag is up at the moment the machine goes (back) to
  \<open>WaitingForCoin\<close>, the next run of the \<open>WaitingForCoin\<close> handler moves to
  \<open>CoinDetected\<close> although no edge has arrived since: the count is still 0 and the time of
  the last registered edge is unchanged. This holds for the handler at any time \<open>u\<close>, and
  for the whole pass of the loop at \<open>u\<close> when the global timeout has not expired and the
  console does not ask for a reset in that pass.
\<close>

theorem reset_leaves_trigger_latched:
  "sensorTriggerCount (resetSensorCount s) = 0
   \<and> sensorWindowStart (resetSensorCount s) = 0
   \<and> sensorTriggered (resetSensorCount s) = sensorTriggered s
   \<and> sensorTriggered (changeState STATE_WAITING_FOR_COIN s) = sensorTriggered s
   \<and> (sensorTriggered s \<and> currentState s \<noteq> STATE_WAITING_FOR_COIN \<longrightarrow>
         currentState (handleWaitingForCoin ((changeState STATE_WAITING_FOR_COIN s)\<lparr>clock := u\<rparr>))
           = STATE_COIN_DETECTED)
   \<and> (sensorTriggered s \<and> currentState s \<noteq> STATE_WAITING_FOR_COIN
        \<and> u - clock s \<le> RESET_TIMEOUT \<and> line \<noteq> Some CmdReset \<longrightarrow>
         currentState (poll u line cap (changeState STATE_WAITING_FOR_COIN s)) = STATE_COIN_DETECTED
       \<and> sensorTriggerCount (poll u line cap (changeState STATE_WAITING_FOR_COIN s)) = 0
       \<and> lastSensorTrigger (poll u line cap (changeState STATE_WAITING_FOR_COIN s))
            = lastSensorTrigger s)"
proof -
  let ?w = "(changeState STATE_WAITING_FOR_COIN s)\<lparr>clock := u\<rparr>"
  have a: "sensorTriggerCount (resetSensorCount s) = 0
         \<and> sensorWindowStart (resetSensorCount s) = 0
         \<and> sensorTriggered (resetSensorCount s) = sensorTriggered s"
    by (simp add: resetSensorCount_def)
  have b: "sensorTriggered (changeState STATE_WAITING_FOR_COIN s) = sensorTriggered s"
    by (simp add: changeState_proj)
  have c: "sensorTriggered s \<Longrightarrow> currentState s \<noteq> STATE_WAITING_FOR_COIN \<Longrightarrow>
             currentState (handleWaitingForCoin ?w) = STATE_COIN_DETECTED
           \<and> sensorTriggerCount (handleWaitingForCoin ?w) = 0
           \<and> lastSensorTrigger (handleWaitingForCoin ?w) = lastSensorTrigger s"
    using handleWaitingForCoin_triggered [of ?w] by (simp add: changeState_proj)
  have d: "currentState s \<noteq> STATE_WAITING_FOR_COIN \<Longrightarrow> u - clock s \<le> RESET_TIMEOUT \<Longrightarrow>
             poll u line cap (changeState STATE_WAITING_FOR_COIN s)
               = delay 10 (processSerialCommands line (handleWaitingForCoin ?w))"
    by (simp add: poll_def loop_def millis_def Let_def changeState_proj not_less [symmetric])
  show ?thesis
    using a b c d serial_frame [of line "handleWaitingForCoin ?w"]
    by (simp add: delay_frame)
qed

text \<open>
  The theorem at the machine that is rejecting two coins and has registered a third edge
  at 12000 while the trapdoor was open: after the state change to \<open>WaitingForCoin\<close> at
  14005 the flag is still up, and the pass at 14015 goes to \<open>CoinDetected\<close> with count 0.
\<close>

theorem reset_leaves_trigger_latched_witness:
  "sensorTriggered ((run two_coins_rejected ready)\<lparr>clock := 14005\<rparr>)
   \<and> currentState ((run two_coins_rejected ready)\<lparr>clock := 14005\<rparr>) \<noteq> STATE_WAITING_FOR_COIN
   \<and> sensorTriggerCount
        (changeState STATE_WAITING_FOR_COIN ((run two_coins_rejected ready)\<lparr>clock := 14005\<rparr>)) = 0
   \<and> sensorTriggered
        (changeState STATE_WAITING_FOR_COIN ((run two_coins_rejected ready)\<lparr>clock := 14005\<rparr>))
   \<and> currentState (poll 14015 None True
        (changeState STATE_WAITING_FOR_COIN ((run two_coins_rejected ready)\<lparr>clock := 14005\<rparr>)))
        = STATE_COIN_DETECTED
   \<and> sensorTriggerCount (poll 14015 None True
        (changeState STATE_WAITING_FOR_COIN ((run two_coins_rejected ready)\<lparr>clock := 14005\<rparr>)))
        = 0"
proof -
  let ?s = "(run two_coins_rejected ready)\<lparr>clock := 14005\<rparr>"
  have h: "sensorTriggered ?s" "currentState ?s \<noteq> STATE_WAITING_FOR_COIN"
          "14015 - clock ?s \<le> RESET_TIMEOUT"
    by (simp_all add: example_defs eval_defs)
  have n: "(None :: SerialCommand option) \<noteq> Some CmdReset" by simp
  show ?thesis
    using h n reset_leaves_trigger_latched
      [where s = ?s and u = 14015 and line = None and cap = True]
    by (simp add: changeState_proj)
qed

section \<open>The Error state\<close>

lemma error_poll:
  assumes "currentState s = STATE_ERROR" and "5000 < t - lastErrorReport s"
  shows "currentState (poll t line cap s) = STATE_WAITING_FOR_COIN
       \<or> (currentState (poll t line cap s) = STATE_ERROR
          \<and> errorCount (poll t line cap s) = errorCount s + 1
          \<and> lastErrorReport (poll t line cap s) = t
          \<and> errorCount s + 1 < 3)"
proof -
  let ?c = "s\<lparr>clock := t\<rparr>"
  have r: "recovering ?c = (3 \<le> errorCount s + 1)"
    using assms(2) by (simp add: recovering_def)
  show ?thesis
  proof (cases "RESET_TIMEOUT < t - stateStartTime s")
    case True
    then have "poll t line cap s = handleError STATUS_TIMEOUT_ERROR ?c"
      by (simp add: poll_def loop_def millis_def)
    then show ?thesis using assms r by (simp add: handleError_proj)
  next
    case False
    then have p: "poll t line cap s
                    = delay 10 (processSerialCommands line (handleError (lastError s) ?c))"
      using assms(1) by (simp add: poll_def loop_def millis_def Let_def)
    show ?thesis
    proof (cases "line = Some CmdReset")
      case True
      with p have "currentState (poll t line cap s) = STATE_WAITING_FOR_COIN"
        by (simp add: delay_frame serial_reset)
      then show ?thesis by simp
    next
      case False
      from serial_frame [OF False, of "handleError (lastError s) ?c"]
           serial_error_frame [OF False, of "handleError (lastError s) ?c"]
      show ?thesis using assms r by (simp add: p delay_def handleError_proj)
    qed
  qed
qed

lemma timeout_poll:
  assumes "RESET_TIMEOUT < t - stateStartTime s" and "5000 < t - lastErrorReport s"
  shows "currentState (poll t line cap s) = STATE_WAITING_FOR_COIN
       \<or> (stateStartTime (poll t line cap s) = stateStartTime s
          \<and> errorCount (poll t line cap s) = errorCount s + 1
          \<and> lastErrorReport (poll t line cap s) = t
          \<and> errorCount s + 1 < 3)"
proof -
  have r: "recovering (s\<lparr>clock := t\<rparr>) = (3 \<le> errorCount s + 1)"
    using assms(2) by (simp add: recovering_def)
  have "poll t line cap s = handleError STATUS_TIMEOUT_ERROR (s\<lparr>clock := t\<rparr>)"
    using assms(1) by (simp add: poll_def loop_def millis_def)
  then show ?thesis using assms(2) r by (simp add: handleError_proj)
qed

text \<open>
  Reporting and recovery. \<open>handleError\<close> reports only when more than 5000 ms have passed
  since the last report, and records the time of each report, so that consecutive
  reports are more than 5 s apart. As long as the report count stays below 3 the state
  is unchanged. The report that brings the count from 2 to 3 is followed by the system
  reset (trapdoor closed, flipper home, status indicator off, camera lights off,
  detector count and window cleared), the count returns to 0 and the state variable is
  \<open>WaitingForCoin\<close>. In the \<open>Error\<close> state every pass of the loop runs this handler (with
  the stored error, or with the timeout error once the global timeout has expired), so
  three passes, each more than 5 s after the previous report, leave \<open>Error\<close> at the
  latest with the third; and in any state held for more than \<open>RESET_TIMEOUT\<close> three such
  passes end with the state variable at \<open>WaitingForCoin\<close>.
\<close>

lemma error_handler_reports_and_recovers:
  "(errorLog (handleError e s) \<noteq> errorLog s \<longrightarrow>
      5000 < clock s - lastErrorReport s \<and> lastErrorReport (handleError e s) = clock s)
   \<and> (\<not> 5000 < clock s - lastErrorReport s \<longrightarrow>
      errorLog (handleError e s) = errorLog s
      \<and> lastErrorReport (handleError e s) = lastErrorReport s)
   \<and> (errorCount s + (if 5000 < clock s - lastErrorReport s then 1 else 0) < 3 \<longrightarrow>
      currentState (handleError e s) = currentState s)
   \<and> (errorCount s = 2 \<and> 5000 < clock s - lastErrorReport s \<longrightarrow>
      errorLog (handleError e s) = errorLog s @ [errorMessage e]
      \<and> trapdoorAngle (handleError e s) = TRAPDOOR_CLOSED
      \<and> flipperAngle (handleError e s) = FLIPPER_HOME
      \<and> statusLED (handleError e s) = LED_OFF
      \<and> \<not> cameraLights (handleError e s)
      \<and> sensorTriggerCount (handleError e s) = 0
      \<and> sensorWindowStart (handleError e s) = 0
      \<and> errorCount (handleError e s) = 0
      \<and> currentState (handleError e s) = STATE_WAITING_FOR_COIN)
   \<and> (currentState s = STATE_ERROR \<longrightarrow>
      loop line cap s =
        (if RESET_TIMEOUT < clock s - stateStartTime s
         then handleError STATUS_TIMEOUT_ERROR s
         else delay 10 (processSerialCommands line (handleError (lastError s) s))))
   \<and> (currentState s = STATE_ERROR \<and> 0 \<le> errorCount s
       \<and> 5000 < t1 - lastErrorReport s \<and> 5000 < t2 - t1 \<and> 5000 < t3 - t2 \<longrightarrow>
      currentState (poll t1 l1 c1 s) = STATE_WAITING_FOR_COIN
      \<or> currentState (poll t2 l2 c2 (poll t1 l1 c1 s)) = STATE_WAITING_FOR_COIN
      \<or> currentState (poll t3 l3 c3 (poll t2 l2 c2 (poll t1 l1 c1 s))) = STATE_WAITING_FOR_COIN)
   \<and> (0 \<le> errorCount s
       \<and> RESET_TIMEOUT < t1 - stateStartTime s \<and> RESET_TIMEOUT < t2 - stateStartTime s
       \<and> RESET_TIMEOUT < t3 - stateStartTime s
       \<and> 5000 < t1 - lastErrorReport s \<and> 5000 < t2 - t1 \<and> 5000 < t3 - t2 \<longrightarrow>
      currentState (poll t1 l1 c1 s) = STATE_WAITING_FOR_COIN
      \<or> currentState (poll t2 l2 c2 (poll t1 l1 c1 s)) = STATE_WAITING_FOR_COIN
      \<or> currentState (poll t3 l3 c3 (poll t2 l2 c2 (poll t1 l1 c1 s))) = STATE_WAITING_FOR_COIN)"
proof -
  have a: "errorLog (handleError e s) \<noteq> errorLog s \<longrightarrow>
      5000 < clock s - lastErrorReport s \<and> lastErrorReport (handleError e s) = clock s"
    by (simp add: handleError_proj)
  have b: "\<not> 5000 < clock s - lastErrorReport s \<longrightarrow>
      errorLog (handleError e s) = errorLog s
      \<and> lastErrorReport (handleError e s) = lastErrorReport s"
    by (simp add: handleError_proj)
  have c: "errorCount s + (if 5000 < clock s - lastErrorReport s then 1 else 0) < 3 \<longrightarrow>
      currentState (handleError e s) = currentState s"
    by (simp add: handleError_proj recovering_def)
  have d: "errorCount s = 2 \<and> 5000 < clock s - lastErrorReport s \<longrightarrow>
      errorLog (handleError e s) = errorLog s @ [errorMessage e]
      \<and> trapdoorAngle (handleError e s) = TRAPDOOR_CLOSED
      \<and> flipperAngle (handleError e s) = FLIPPER_HOME
      \<and> statusLED (handleError e s) = LED_OFF
      \<and> \<not> cameraLights (handleError e s)
      \<and> sensorTriggerCount (handleError e s) = 0
      \<and> sensorWindowStart (handleError e s) = 0
      \<and> errorCount (handleError e s) = 0
      \<and> currentState (handleError e s) = STATE_WAITING_FOR_COIN"
    by (simp add: handleError_proj recovering_def)
  have f: "currentState s = STATE_ERROR \<longrightarrow>
      loop line cap s =
        (if RESET_TIMEOUT < clock s - stateStartTime s
         then handleError STATUS_TIMEOUT_ERROR s
         else delay 10 (processSerialCommands line (handleError (lastError s) s)))"
    by (simp add: loop_def millis_def Let_def)
  have g: "currentState (poll t1 l1 c1 s) = STATE_WAITING_FOR_COIN
      \<or> currentState (poll t2 l2 c2 (poll t1 l1 c1 s)) = STATE_WAITING_FOR_COIN
      \<or> currentState (poll t3 l3 c3 (poll t2 l2 c2 (poll t1 l1 c1 s))) = STATE_WAITING_FOR_COIN"
    if h: "currentState s = STATE_ERROR" "0 \<le> errorCount s"
       "5000 < t1 - lastErrorReport s" "5000 < t2 - t1" "5000 < t3 - t2"
  proof -
    let ?s1 = "poll t1 l1 c1 s"
    let ?s2 = "poll t2 l2 c2 ?s1"
    let ?s3 = "poll t3 l3 c3 ?s2"
    note p1 = error_poll [OF h(1) h(3), of l1 c1]
    show ?thesis
    proof (cases "currentState ?s1 = STATE_WAITING_FOR_COIN")
      case True then show ?thesis by simp
    next
      case n1: False
      with p1 have e1: "currentState ?s1 = STATE_ERROR" "errorCount ?s1 = errorCount s + 1"
        "lastErrorReport ?s1 = t1" by simp_all
      have "5000 < t2 - lastErrorReport ?s1" using h(4) e1(3) by simp
      note p2 = error_poll [OF e1(1) this, of l2 c2]
      show ?thesis
      proof (cases "currentState ?s2 = STATE_WAITING_FOR_COIN")
        case True then show ?thesis by simp
      next
        case n2: False
        with p2 have e2: "currentState ?s2 = STATE_ERROR" "errorCount ?s2 = errorCount ?s1 + 1"
          "lastErrorReport ?s2 = t2" by simp_all
        have "5000 < t3 - lastErrorReport ?s2" using h(5) e2(3) by simp
        note p3 = error_poll [OF e2(1) this, of l3 c3]
        have "\<not> errorCount ?s2 + 1 < 3" using e1(2) e2(2) h(2) by simp
        with p3 show ?thesis by simp
      qed
    qed
  qed
  have k: "currentState (poll t1 l1 c1 s) = STATE_WAITING_FOR_COIN
      \<or> currentState (poll t2 l2 c2 (poll t1 l1 c1 s)) = STATE_WAITING_FOR_COIN
      \<or> currentState (poll t3 l3 c3 (poll t2 l2 c2 (poll t1 l1 c1 s))) = STATE_WAITING_FOR_COIN"
    if h: "0 \<le> errorCount s"
       "RESET_TIMEOUT < t1 - stateStartTime s" "RESET_TIMEOUT < t2 - stateStartTime s"
       "RESET_TIMEOUT < t3 - stateStartTime s"
       "5000 < t1 - lastErrorReport s" "5000 < t2 - t1" "5000 < t3 - t2"
  proof -
    let ?s1 = "poll t1 l1 c1 s"
    let ?s2 = "poll t2 l2 c2 ?s1"
    note p1 = timeout_poll [OF h(2) h(5), of l1 c1]
    show ?thesis
    proof (cases "currentState ?s1 = STATE_WAITING_FOR_COIN")
      case True then show ?thesis by simp
    next
      case n1: False
      with p1 have e1: "stateStartTime ?s1 = stateStartTime s"
        "errorCount ?s1 = errorCount s + 1" "lastErrorReport ?s1 = t1" by simp_all
      have "RESET_TIMEOUT < t2 - stateStartTime ?s1" "5000 < t2 - lastErrorReport ?s1"
        using h(3,6) e1 by simp_all
      note p2 = timeout_poll [OF this, of l2 c2]
      show ?thesis
      proof (cases "currentState ?s2 = STATE_WAITING_FOR_COIN")
        case True then show ?thesis by simp
      next
        case n2: False
        with p2 have e2: "stateStartTime ?s2 = stateStartTime ?s1"
          "errorCount ?s2 = errorCount ?s1 + 1" "lastErrorReport ?s2 = t2" by simp_all
        have "RESET_TIMEOUT < t3 - stateStartTime ?s2" "5000 < t3 - lastErrorReport ?s2"
          using h(4,7) e1 e2 by simp_all
        note p3 = timeout_poll [OF this, of l3 c3]
        have "\<not> errorCount ?s2 + 1 < 3" using e1(2) e2(2) h(1) by simp
        with p3 show ?thesis by simp
      qed
    qed
  qed
  show ?thesis using a b c d f g k by blast
qed

text \<open>
  The state variable at \<open>WaitingForCoin\<close> does not mean that coins are accepted. In a
  machine that is in \<open>WaitingForCoin\<close>, every run whose passes all start more than
  \<open>RESET_TIMEOUT\<close> after the state was entered leaves the state and its start time as
  they are, and a latched trigger flag stays latched: no pass looks at it.
\<close>

lemma dead_waiting:
  assumes "currentState s = STATE_WAITING_FOR_COIN"
      and "timed_out_passes (stateStartTime s) es"
  shows "currentState (run es s) = STATE_WAITING_FOR_COIN
       \<and> stateStartTime (run es s) = stateStartTime s
       \<and> (sensorTriggered s \<longrightarrow> sensorTriggered (run es s))"
  using assms
proof (induction es arbitrary: s)
  case Nil
  then show ?case by simp
next
  case (Cons e es)
  show ?case
  proof (cases e)
    case (Edge t)
    have "currentState (edge t s) = STATE_WAITING_FOR_COIN"
         "timed_out_passes (stateStartTime (edge t s)) es"
      using Cons.prems Edge by (simp_all add: edge_frame)
    from Cons.IH [OF this] show ?thesis
      using Edge edge_keeps_latch [of s t] by (simp add: edge_frame)
  next
    case (Poll t line cap)
    let ?c = "s\<lparr>clock := t\<rparr>"
    have w: "currentState ?c = STATE_WAITING_FOR_COIN"
            "RESET_TIMEOUT < clock ?c - stateStartTime ?c"
      using Cons.prems Poll by simp_all
    note p = waiting_timeout_pass [OF w, of line cap]
    have "currentState (poll t line cap s) = STATE_WAITING_FOR_COIN"
         "timed_out_passes (stateStartTime (poll t line cap s)) es"
      using p Cons.prems Poll by (simp_all add: poll_def)
    from Cons.IH [OF this] show ?thesis
      using Poll p by (simp add: poll_def)
  qed
qed

text \<open>
  C8. The first two parts of the claim hold (\<open>error_handler_reports_and_recovers\<close>). The
  last part is what the recovery is written for (\<open>RESET_TIMEOUT\<close> is commented as the
  automatic reset of a stuck machine, and the recovery ends with the state change to
  \<open>WaitingForCoin\<close>), and the code misses it: the global timeout also applies to
  \<open>WaitingForCoin\<close>, where waiting is not being stuck, and the state change of the
  recovery, being to the state the machine is in, does not restart the state timer.
  A machine left alone for more than \<open>RESET_TIMEOUT\<close> after start-up is in
  \<open>WaitingForCoin\<close> since 10000. A coin passes the sensor at 45000 and is latched. The
  passes at 45010, 50020, 55030, 60040 (with a reset command on the console) and 65050
  all take the timeout branch: five timeouts are reported, the third report resets the
  detector count, the console is not read, the start time stays 10000, and the flag is
  still latched at the end: the coin is never seen. By \<open>dead_waiting\<close> this goes on for
  every pass until the 32-bit clock has wrapped around to within \<open>RESET_TIMEOUT\<close> of
  the start time.
\<close>

theorem idle_waiting_is_dead:
  "currentState ready = STATE_WAITING_FOR_COIN
   \<and> stateStartTime ready = 10000
   \<and> sensorTriggered (run [Edge 45000] ready)
   \<and> currentState (run idle_then_coin ready) = STATE_WAITING_FOR_COIN
   \<and> stateStartTime (run idle_then_coin ready) = 10000
   \<and> sensorTriggered (run idle_then_coin ready)
   \<and> sensorTriggerCount (run idle_then_coin ready) = 0
   \<and> errorLog (run idle_then_coin ready)
        = [''Timeout error'', ''Timeout error'', ''Timeout error'', ''Timeout error'',
           ''Timeout error'']"
  by (simp add: idle_then_coin_def example_defs eval_defs)

end
